theory Spec2Isabelle
  imports Main "HOL-Library.Char_ord" "HOL-Library.List_Lexorder"
begin

section \<open>Documents of the store\<close>

text \<open>
  The five collections used by \<^verbatim>\<open>routes/chats.js\<close>, \<^verbatim>\<open>routes/users.js\<close> and
  \<^verbatim>\<open>utils/notifications.js\<close>.  A document is a record of the fields the code reads or
  writes; timestamps (\<^verbatim>\<open>new Date()\<close>) are natural numbers; the numbers kept in
  \<^verbatim>\<open>unreadCount\<close> are integers; a JavaScript object used as a dictionary is a map.
  A missing \<^verbatim>\<open>fcmTokens\<close> field is the empty list, as \<^verbatim>\<open>userData.fcmTokens || []\<close> reads it.
\<close>

record user =
  u_name :: string
  u_username :: string
  u_profilePic :: string
  u_fcmTokens :: "string list"
  u_following :: "string list"
  u_followers :: "string list"

record last_message =
  lm_text :: string
  lm_senderId :: string
  lm_type :: string

record chat =
  c_chatId :: string
  c_participants :: "string list"
  c_createdAt :: nat
  c_lastMessageAt :: nat
  c_lastMessage :: last_message
  c_unreadCount :: "string \<rightharpoonup> int"

record message =
  m_messageId :: string
  m_chatId :: string
  m_senderId :: string
  m_text :: string
  m_mediaUrl :: string
  m_type :: string
  m_read :: bool
  m_createdAt :: nat

record notification =
  n_notificationId :: string
  n_userId :: string
  n_type :: string
  n_actorId :: string
  n_actorName :: string
  n_message :: string
  n_data :: "(string \<times> string) list"
  n_read :: bool
  n_createdAt :: nat

record follow_edge =
  f_followerId :: string
  f_followingId :: string
  f_createdAt :: nat

text \<open>
  The state of the system: the collections, and the log of the tokens for which
  \<^verbatim>\<open>messaging.sendToDevice\<close> has been called.  Collections that are only looked up by
  key are maps; the two collections that are queried (messages, notifications) are lists
  of documents, each carrying its own id.  The store holds a document only under a
  valid document id, so the keys of the maps and the ids of the listed documents are
  valid ids.
\<close>

record store =
  users :: "string \<rightharpoonup> user"
  chats :: "string \<rightharpoonup> chat"
  messages :: "message list"
  notifications :: "notification list"
  follows :: "string \<rightharpoonup> follow_edge"
  pushLog :: "string list"

section \<open>The environment of a request\<close>

datatype push_result = Delivered | Rejected string

datatype store_call = NotificationSet | UserGet

text \<open>
  What a request gets from outside: the clock, the ids that \<^verbatim>\<open>collection.doc()\<close>
  generates, the answer of the push gateway for each token (\<^verbatim>\<open>Rejected code\<close> is a
  rejected promise whose error has that \<^verbatim>\<open>code\<close>), and which calls of the notification
  dispatcher to the document store are rejected by the store.
\<close>

record env =
  now :: nat
  autoId :: string
  notifNow :: nat
  notifId :: string
  sendToDevice :: "string \<Rightarrow> push_result"
  storeFails :: "store_call \<Rightarrow> bool"

section \<open>Responses\<close>

record chat_view =
  cv_chatId :: string
  cv_otherUid :: string
  cv_otherName :: string
  cv_otherUsername :: string
  cv_otherProfilePic :: string
  cv_lastMessage :: last_message
  cv_lastMessageAt :: nat
  cv_unreadCount :: int

datatype payload =
    NoData
  | ChatData chat_view
  | MessageData message
  | MessagesData "message list" "string option" bool

record response =
  status :: nat
  msg :: string
  payload :: payload

definition reply :: "nat \<Rightarrow> string \<Rightarrow> response" where
  "reply code text = \<lparr>status = code, msg = text, payload = NoData\<rparr>"


section \<open>JavaScript helpers\<close>

text \<open>\<^verbatim>\<open>m[k] || 0\<close> on a dictionary of numbers: a missing key and the number 0 both give 0.\<close>

definition orZero :: "(string \<rightharpoonup> int) \<Rightarrow> string \<Rightarrow> int" where
  "orZero m k = (case m k of None \<Rightarrow> 0 | Some v \<Rightarrow> v)"

text \<open>\<^verbatim>\<open>[a, b].sort()\<close>: the default comparison orders strings by their code units.\<close>

definition sortPair :: "string \<Rightarrow> string \<Rightarrow> string list" where
  "sortPair a b = (if b < a then [b, a] else [a, b])"

text \<open>\<^verbatim>\<open>xs.join('_')\<close>.\<close>

fun joinUnderscore :: "string list \<Rightarrow> string" where
  "joinUnderscore [] = []"
| "joinUnderscore [x] = x"
| "joinUnderscore (x # y # ys) = x @ ''_'' @ joinUnderscore (y # ys)"

text \<open>\<^verbatim>\<open>xs.find(id => id !== uid)\<close>; \<^verbatim>\<open>None\<close> is \<^verbatim>\<open>undefined\<close>.\<close>

definition findOther :: "string list \<Rightarrow> string \<Rightarrow> string option" where
  "findOther ps uid = List.find (\<lambda>i. i \<noteq> uid) ps"

text \<open>
  The property key that \<^verbatim>\<open>obj[otherParticipantId]\<close> uses: \<^verbatim>\<open>undefined\<close> is converted
  to the string \<^verbatim>\<open>"undefined"\<close>.
\<close>

definition propertyKey :: "string option \<Rightarrow> string" where
  "propertyKey k = (case k of None \<Rightarrow> ''undefined'' | Some i \<Rightarrow> i)"

section \<open>POST /api/chats/create\<close>

definition chatKey :: "string \<Rightarrow> string \<Rightarrow> string" where
  "chatKey uid otherUserId = joinUnderscore (sortPair uid otherUserId)"


definition emptyLastMessage :: last_message where
  "emptyLastMessage = \<lparr>lm_text = '''', lm_senderId = '''', lm_type = ''text''\<rparr>"

definition newChat :: "env \<Rightarrow> string \<Rightarrow> string \<Rightarrow> chat" where
  "newChat e uid otherUserId =
     \<lparr>c_chatId = chatKey uid otherUserId,
      c_participants = sortPair uid otherUserId,
      c_createdAt = now e,
      c_lastMessageAt = now e,
      c_lastMessage = emptyLastMessage,
      c_unreadCount = [uid \<mapsto> 0, otherUserId \<mapsto> 0]\<rparr>"


section \<open>utils/notifications.js: sendNotification\<close>

datatype outcome = Returned | Threw string

record notification_params =
  np_userId :: "string option"
  np_type :: string
  np_actorId :: string
  np_actorName :: string
  np_message :: string
  np_data :: "(string \<times> string) list"

text \<open>\<^verbatim>\<open>ref.set(data)\<close> on a collection kept as a list: the document with that id is replaced or added.\<close>

definition setNotification :: "notification \<Rightarrow> notification list \<Rightarrow> notification list" where
  "setNotification n ns = filter (\<lambda>x. n_notificationId x \<noteq> n_notificationId n) ns @ [n]"

definition invalidTokenCode :: "string \<Rightarrow> bool" where
  "invalidTokenCode code =
     (code = ''messaging/invalid-registration-token'' \<or>
      code = ''messaging/registration-token-not-registered'')"

text \<open>The delivery to a token failed with one of the two invalid-token codes.\<close>

definition tokenInvalid :: "env \<Rightarrow> string \<Rightarrow> bool" where
  "tokenInvalid e t = (case sendToDevice e t of Delivered \<Rightarrow> False | Rejected code \<Rightarrow> invalidTokenCode code)"

text \<open>\<^verbatim>\<open>Promise.all\<close> rejects with the first rejection; a later one changes nothing.\<close>

definition firstThrow :: "outcome \<Rightarrow> string \<Rightarrow> outcome" where
  "firstThrow out err = (case out of Returned \<Rightarrow> Threw err | Threw e0 \<Rightarrow> Threw e0)"

text \<open>
  One element of \<^verbatim>\<open>fcmTokens.map(token => messaging.sendToDevice(token, payload).catch(...))\<close>:
  the call is made, and a rejection is handled by the \<^verbatim>\<open>catch\<close>.  For an invalid-token
  code the handler evaluates
  \<^verbatim>\<open>collections.users.doc(userId).update({ fcmTokens: db.FieldValue.arrayRemove(token) })\<close>.
  \<^verbatim>\<open>db\<close> is \<^verbatim>\<open>admin.firestore()\<close> (config/firebase.js), a Firestore instance, which has no
  property \<^verbatim>\<open>FieldValue\<close>: the argument \<^verbatim>\<open>db.FieldValue.arrayRemove(token)\<close> throws a TypeError
  before \<^verbatim>\<open>update\<close> is called, so nothing is written and this promise is rejected.  Any
  other code is logged and the promise is fulfilled.
\<close>

definition sendToToken :: "env \<Rightarrow> string \<Rightarrow> string \<Rightarrow> outcome \<times> store \<Rightarrow> outcome \<times> store" where
  "sendToToken e userId token acc =
     (let out = fst acc; s = (snd acc)\<lparr>pushLog := pushLog (snd acc) @ [token]\<rparr> in
      case sendToDevice e token of
        Delivered \<Rightarrow> (out, s)
      | Rejected code \<Rightarrow>
          if invalidTokenCode code
          then (firstThrow out ''Cannot read properties of undefined'', s)
          else (out, s))"

text \<open>All promises are created by the \<^verbatim>\<open>map\<close> before any is awaited: every token is processed.\<close>

fun fanOut :: "env \<Rightarrow> string \<Rightarrow> string list \<Rightarrow> outcome \<times> store \<Rightarrow> outcome \<times> store" where
  "fanOut e userId [] acc = acc"
| "fanOut e userId (token # tokens) acc = fanOut e userId tokens (sendToToken e userId token acc)"

definition notificationOf :: "env \<Rightarrow> string \<Rightarrow> notification_params \<Rightarrow> notification" where
  "notificationOf e userId p =
     \<lparr>n_notificationId = notifId e, n_userId = userId, n_type = np_type p,
      n_actorId = np_actorId p, n_actorName = np_actorName p, n_message = np_message p,
      n_data = np_data p, n_read = False, n_createdAt = notifNow e\<rparr>"

text \<open>
  The result is the outcome (\<^verbatim>\<open>Threw\<close> when the function rethrows from its \<^verbatim>\<open>catch\<close>)
  and the store once every started promise has settled.  An \<^verbatim>\<open>undefined\<close> user id is not a
  value the store accepts in a document: the \<^verbatim>\<open>set\<close> throws and nothing is written.
\<close>

definition sendNotification :: "env \<Rightarrow> store \<Rightarrow> notification_params \<Rightarrow> outcome \<times> store" where
  "sendNotification e s p =
     (case np_userId p of
        None \<Rightarrow> (Threw ''undefined is not a valid field value'', s)
      | Some userId \<Rightarrow>
          if storeFails e NotificationSet then (Threw ''set rejected'', s)
          else
            let s1 = s\<lparr>notifications := setNotification (notificationOf e userId p) (notifications s)\<rparr> in
            if storeFails e UserGet then (Threw ''get rejected'', s1)
            else (case users s1 userId of
                None \<Rightarrow> (Returned, s1)
              | Some userData \<Rightarrow>
                  if u_fcmTokens userData = [] then (Returned, s1)
                  else fanOut e userId (u_fcmTokens userData) (Returned, s1)))"

section \<open>POST /api/chats/:chatId/send\<close>

record send_body =
  b_text :: "string option"
  b_mediaUrl :: "string option"
  b_type :: "string option"

text \<open>
  \<^verbatim>\<open>String.prototype.trim\<close> removes white space and line terminators at both ends: TAB,
  LF, VT, FF, CR, SP, U+00A0, U+1680, U+2000 to U+200A, U+2028, U+2029, U+202F, U+205F,
  U+3000 and U+FEFF.  A text is a string of bytes, the UTF-8 encoding of the JavaScript
  string; \<^verbatim>\<open>whiteSpace\<close> lists the encodings of these characters.
\<close>

definition whiteSpace :: "string list" where
  "whiteSpace =
     [[CHR 0x09], [CHR 0x0A], [CHR 0x0B], [CHR 0x0C], [CHR 0x0D], [CHR 0x20],
      [CHR 0xC2, CHR 0xA0],
      [CHR 0xE1, CHR 0x9A, CHR 0x80],
      [CHR 0xE2, CHR 0x80, CHR 0x80], [CHR 0xE2, CHR 0x80, CHR 0x81], [CHR 0xE2, CHR 0x80, CHR 0x82],
      [CHR 0xE2, CHR 0x80, CHR 0x83], [CHR 0xE2, CHR 0x80, CHR 0x84], [CHR 0xE2, CHR 0x80, CHR 0x85],
      [CHR 0xE2, CHR 0x80, CHR 0x86], [CHR 0xE2, CHR 0x80, CHR 0x87], [CHR 0xE2, CHR 0x80, CHR 0x88],
      [CHR 0xE2, CHR 0x80, CHR 0x89], [CHR 0xE2, CHR 0x80, CHR 0x8A],
      [CHR 0xE2, CHR 0x80, CHR 0xA8], [CHR 0xE2, CHR 0x80, CHR 0xA9], [CHR 0xE2, CHR 0x80, CHR 0xAF],
      [CHR 0xE2, CHR 0x81, CHR 0x9F],
      [CHR 0xE3, CHR 0x80, CHR 0x80],
      [CHR 0xEF, CHR 0xBB, CHR 0xBF]]"

text \<open>\<^verbatim>\<open>dropPrefix w t\<close> is the rest of \<^verbatim>\<open>t\<close> after \<^verbatim>\<open>w\<close>, when \<^verbatim>\<open>t\<close> starts with \<^verbatim>\<open>w\<close>.\<close>

fun dropPrefix :: "string \<Rightarrow> string \<Rightarrow> string option" where
  "dropPrefix [] t = Some t"
| "dropPrefix (c # w) [] = None"
| "dropPrefix (c # w) (d # t) = (if c = d then dropPrefix w t else None)"

text \<open>The rest of a text after its first character, when that character is one of the codes.\<close>

fun dropWhiteSpace :: "string list \<Rightarrow> string \<Rightarrow> string option" where
  "dropWhiteSpace [] t = None"
| "dropWhiteSpace (w # ws) t =
     (case dropPrefix w t of Some r \<Rightarrow> Some r | None \<Rightarrow> dropWhiteSpace ws t)"

text \<open>
  Removing the leading white space, one character at a time; a text of \<^verbatim>\<open>n\<close> bytes has at
  most \<^verbatim>\<open>n\<close> characters, so \<^verbatim>\<open>n\<close> rounds are enough.
\<close>

fun trimStartN :: "nat \<Rightarrow> string list \<Rightarrow> string \<Rightarrow> string" where
  "trimStartN 0 codes t = t"
| "trimStartN (Suc n) codes t =
     (case dropWhiteSpace codes t of None \<Rightarrow> t | Some r \<Rightarrow> trimStartN n codes r)"

text \<open>The trailing white space is the leading white space of the reversed text.\<close>

definition trim :: "string \<Rightarrow> string" where
  "trim t =
     rev (trimStartN (length t) (map rev whiteSpace)
            (rev (trimStartN (length t) whiteSpace t)))"

text \<open>\<^verbatim>\<open>!v\<close> for a string that may be \<^verbatim>\<open>undefined\<close>.\<close>

definition falsy :: "string option \<Rightarrow> bool" where
  "falsy v = (case v of None \<Rightarrow> True | Some t \<Rightarrow> t = '''')"

text \<open>\<^verbatim>\<open>v || ''\<close>.\<close>

definition orEmpty :: "string option \<Rightarrow> string" where
  "orEmpty v = (case v of None \<Rightarrow> '''' | Some t \<Rightarrow> t)"

text \<open>The default of the destructuring \<^verbatim>\<open>type = 'text'\<close>.\<close>

definition typeOf :: "send_body \<Rightarrow> string" where
  "typeOf b = (case b_type b of None \<Rightarrow> ''text'' | Some t \<Rightarrow> t)"

text \<open>
  What the handler holds when it enters the transaction: the chat document as read
  by \<^verbatim>\<open>collections.chats.doc(chatId).get()\<close> before the transaction, the other
  participant found in it, and the message document prepared from the request.
\<close>

record pending_send =
  p_uid :: string
  p_chatId :: string
  p_body :: send_body
  p_chatData :: chat
  p_otherParticipantId :: "string option"
  p_messageData :: message

definition sendPrepare :: "env \<Rightarrow> store \<Rightarrow> string \<Rightarrow> string \<Rightarrow> send_body \<Rightarrow> response + pending_send" where
  "sendPrepare e s uid chatId b =
     (if typeOf b = ''text'' \<and> (falsy (b_text b) \<or> trim (orEmpty (b_text b)) = '''')
      then Inl (reply 400 ''Message text is required'')
      else if typeOf b = ''image'' \<and> falsy (b_mediaUrl b)
      then Inl (reply 400 ''Media URL is required for image messages'')
      else (case chats s chatId of
          None \<Rightarrow> Inl (reply 404 ''Chat not found'')
        | Some chatData \<Rightarrow>
            if uid \<notin> set (c_participants chatData)
            then Inl (reply 403 ''Not authorized to send messages in this chat'')
            else Inr \<lparr>p_uid = uid, p_chatId = chatId, p_body = b, p_chatData = chatData,
                      p_otherParticipantId = findOther (c_participants chatData) uid,
                      p_messageData =
                        \<lparr>m_messageId = autoId e, m_chatId = chatId, m_senderId = uid,
                         m_text = orEmpty (b_text b), m_mediaUrl = orEmpty (b_mediaUrl b),
                         m_type = typeOf b, m_read = False, m_createdAt = now e\<rparr>\<rparr>))"

definition setMessage :: "message \<Rightarrow> message list \<Rightarrow> message list" where
  "setMessage m ms = filter (\<lambda>x. m_messageId x \<noteq> m_messageId m) ms @ [m]"

definition snapshotOf :: "pending_send \<Rightarrow> last_message" where
  "snapshotOf p =
     \<lparr>lm_text = (if typeOf (p_body p) = ''text'' then orEmpty (b_text (p_body p)) else ''Sent an image''),
      lm_senderId = p_uid p,
      lm_type = typeOf (p_body p)\<rparr>"

text \<open>
  \<^verbatim>\<open>const unreadCount = { ...chatData.unreadCount };
  unreadCount[otherParticipantId] = (unreadCount[otherParticipantId] || 0) + 1;\<close>
  computed from the chat document held by the handler.
\<close>

definition bumpedUnread :: "pending_send \<Rightarrow> (string \<rightharpoonup> int)" where
  "bumpedUnread p =
     (c_unreadCount (p_chatData p))
       (propertyKey (p_otherParticipantId p) \<mapsto>
          orZero (c_unreadCount (p_chatData p)) (propertyKey (p_otherParticipantId p)) + 1)"

text \<open>
  The body of \<^verbatim>\<open>db.runTransaction\<close>: one \<^verbatim>\<open>set\<close> of the message and one \<^verbatim>\<open>update\<close> of three
  fields of the chat document, committed together.  The update is rejected (and nothing
  is written) when the chat document does not exist at commit.
\<close>

definition sendTransaction :: "pending_send \<Rightarrow> store \<Rightarrow> store option" where
  "sendTransaction p s =
     (case chats s (p_chatId p) of
        None \<Rightarrow> None
      | Some cur \<Rightarrow>
          Some (s\<lparr>messages := setMessage (p_messageData p) (messages s),
                  chats := (chats s)(p_chatId p \<mapsto>
                     cur\<lparr>c_lastMessage := snapshotOf p,
                         c_lastMessageAt := m_createdAt (p_messageData p),
                         c_unreadCount := bumpedUnread p\<rparr>)\<rparr>))"

text \<open>
  The inner \<^verbatim>\<open>try\<close> block: \<^verbatim>\<open>senderData.name\<close> throws when the sender has no user
  document; otherwise the dispatcher is called.
\<close>

definition sendNotify :: "env \<Rightarrow> store \<Rightarrow> pending_send \<Rightarrow> outcome \<times> store" where
  "sendNotify e s p =
     (case users s (p_uid p) of
        None \<Rightarrow> (Threw ''Cannot read properties of undefined'', s)
      | Some senderData \<Rightarrow>
          sendNotification e s
            \<lparr>np_userId = p_otherParticipantId p, np_type = ''message'', np_actorId = p_uid p,
             np_actorName = u_name senderData,
             np_message = u_name senderData @ '': '' @
                (if typeOf (p_body p) = ''text'' then orEmpty (b_text (p_body p)) else ''Sent you an image''),
             np_data = [(''chatId'', p_chatId p), (''messageId'', m_messageId (p_messageData p))]\<rparr>)"

text \<open>The handler after the transaction: the \<^verbatim>\<open>catch\<close> of the inner block drops the outcome.\<close>

definition sendFinish :: "env \<Rightarrow> store \<Rightarrow> pending_send \<Rightarrow> response \<times> store" where
  "sendFinish e s p =
     (\<lparr>status = 201, msg = ''Message sent successfully'', payload = MessageData (p_messageData p)\<rparr>,
      snd (sendNotify e s p))"

definition sendMessage :: "env \<Rightarrow> store \<Rightarrow> string \<Rightarrow> string \<Rightarrow> send_body \<Rightarrow> response \<times> store" where
  "sendMessage e s uid chatId b =
     (case sendPrepare e s uid chatId b of
        Inl r \<Rightarrow> (r, s)
      | Inr p \<Rightarrow>
          (case sendTransaction p s of
             None \<Rightarrow> (reply 500 ''Failed to send message'', s)
           | Some s1 \<Rightarrow> sendFinish e s1 p))"

section \<open>Queries: descending creation time, limit, cursor\<close>

text \<open>
  \<^verbatim>\<open>.orderBy('createdAt', 'desc').limit(n)\<close> with an optional \<^verbatim>\<open>.startAfter(lastDoc)\<close>.
  The position of a document is its creation time, then its id; \<^verbatim>\<open>earlier k1 k2\<close> says
  that position \<^verbatim>\<open>k1\<close> comes before \<^verbatim>\<open>k2\<close> in the descending order.
\<close>

definition earlier :: "nat \<times> string \<Rightarrow> nat \<times> string \<Rightarrow> bool" where
  "earlier k1 k2 = (fst k2 < fst k1 \<or> (fst k2 = fst k1 \<and> snd k2 < snd k1))"

fun insertDesc :: "('a \<Rightarrow> nat \<times> string) \<Rightarrow> 'a \<Rightarrow> 'a list \<Rightarrow> 'a list" where
  "insertDesc key x [] = [x]"
| "insertDesc key x (y # ys) =
     (if earlier (key y) (key x) then y # insertDesc key x ys else x # y # ys)"

definition orderDesc :: "('a \<Rightarrow> nat \<times> string) \<Rightarrow> 'a list \<Rightarrow> 'a list" where
  "orderDesc key xs = foldr (insertDesc key) xs []"

definition startAfter :: "('a \<Rightarrow> nat \<times> string) \<Rightarrow> 'a \<Rightarrow> 'a list \<Rightarrow> 'a list" where
  "startAfter key lastDoc xs = filter (\<lambda>x. earlier (key lastDoc) (key x)) xs"

text \<open>
  \<^verbatim>\<open>collection.doc(path).get()\<close>.  \<^verbatim>\<open>doc\<close> throws when the path is empty or contains
  \<^verbatim>\<open>//\<close>, and when the path, split at \<^verbatim>\<open>/\<close> with empty segments dropped and appended to
  the collection, does not point to a document (the number of its segments is even,
  as for \<^verbatim>\<open>x/y\<close>).  The store rejects a \<^verbatim>\<open>get\<close> whose path has a segment that is not a valid
  id: \<^verbatim>\<open>.\<close>, \<^verbatim>\<open>..\<close>, a segment of the form \<^verbatim>\<open>__.*__\<close>, or one longer than 1500 bytes.
  Otherwise the result is the snapshot: the document of the collection with that id,
  if there is one; a path of three or more segments names a document of a
  subcollection, and no subcollection holds a document.
\<close>

fun splitSlash :: "string \<Rightarrow> string \<Rightarrow> string list" where
  "splitSlash acc [] = [rev acc]"
| "splitSlash acc (c # cs) =
     (if c = CHR ''/'' then rev acc # splitSlash [] cs else splitSlash (c # acc) cs)"

definition pathSegments :: "string \<Rightarrow> string list" where
  "pathSegments p = filter (\<lambda>seg. seg \<noteq> []) (splitSlash [] p)"

fun hasDoubleSlash :: "string \<Rightarrow> bool" where
  "hasDoubleSlash (a # b # cs) = ((a = CHR ''/'' \<and> b = CHR ''/'') \<or> hasDoubleSlash (b # cs))"
| "hasDoubleSlash cs = False"

definition reservedId :: "string \<Rightarrow> bool" where
  "reservedId seg =
     (seg = ''.'' \<or> seg = ''..'' \<or>
      (4 \<le> length seg \<and> take 2 seg = ''__'' \<and> drop (length seg - 2) seg = ''__'') \<or>
      1500 < length seg)"

definition docGet :: "('a \<Rightarrow> string) \<Rightarrow> 'a list \<Rightarrow> string \<Rightarrow> string + 'a option" where
  "docGet ident coll path =
     (if path = '''' \<or> hasDoubleSlash path then Inl ''Path must be a non-empty string without //''
      else if even (length (pathSegments path)) then Inl ''Path must point to a document''
      else if list_ex reservedId (pathSegments path) then Inl ''Invalid resource id''
      else (case pathSegments path of
              [i] \<Rightarrow> Inr (List.find (\<lambda>d. ident d = i) coll)
            | segs \<Rightarrow> Inr None))"

text \<open>
  \<^verbatim>\<open>if (lastId) { lastDoc = await coll.doc(lastId).get(); if (lastDoc.exists) query = query.startAfter(lastDoc) }\<close>:
  an absent or empty \<^verbatim>\<open>lastId\<close> gives no cursor; otherwise the document is fetched, which
  may throw, and the cursor is the document when it exists.
\<close>

definition cursorDoc :: "('a \<Rightarrow> string) \<Rightarrow> 'a list \<Rightarrow> string option \<Rightarrow> string + 'a option" where
  "cursorDoc ident coll lastId =
     (case lastId of
        None \<Rightarrow> Inr None
      | Some i \<Rightarrow> if i = '''' then Inr None else docGet ident coll i)"

definition runQuery :: "('a \<Rightarrow> nat \<times> string) \<Rightarrow> 'a list \<Rightarrow> nat \<Rightarrow> 'a option \<Rightarrow> 'a list" where
  "runQuery key matching n cursor =
     take n (case cursor of
               None \<Rightarrow> orderDesc key matching
             | Some lastDoc \<Rightarrow> startAfter key lastDoc (orderDesc key matching))"

text \<open>The \<^verbatim>\<open>lastId\<close> of a response: the id of the last document of the page, or \<^verbatim>\<open>null\<close>.\<close>

definition lastIdOf :: "('a \<Rightarrow> string) \<Rightarrow> 'a list \<Rightarrow> string option" where
  "lastIdOf ident docs = (if length docs > 0 then Some (ident (last docs)) else None)"

text \<open>The default of \<^verbatim>\<open>limit = 20\<close>, after \<^verbatim>\<open>parseInt\<close>.\<close>

definition limitOf :: "nat option \<Rightarrow> nat" where
  "limitOf l = (case l of None \<Rightarrow> 20 | Some n \<Rightarrow> n)"

section \<open>GET /api/chats/:chatId/messages\<close>

definition messageKey :: "message \<Rightarrow> nat \<times> string" where
  "messageKey m = (m_createdAt m, m_messageId m)"

text \<open>The page of the query, for the cursor document found (or none).\<close>

definition messagesPage :: "store \<Rightarrow> string \<Rightarrow> nat option \<Rightarrow> message option \<Rightarrow> message list" where
  "messagesPage s chatId limit cursor =
     runQuery messageKey (filter (\<lambda>m. m_chatId m = chatId) (messages s)) (limitOf limit) cursor"

text \<open>\<^verbatim>\<open>batch.update(doc.ref, { read: true })\<close> for each of the documents with the given ids.\<close>

definition markMessages :: "string list \<Rightarrow> message list \<Rightarrow> message list" where
  "markMessages ids ms = map (\<lambda>m. if m_messageId m \<in> set ids then m\<lparr>m_read := True\<rparr> else m) ms"

definition flippedByList :: "string \<Rightarrow> message list \<Rightarrow> message list" where
  "flippedByList uid page = filter (\<lambda>m. m_senderId m \<noteq> uid \<and> \<not> m_read m) page"

text \<open>An error thrown while the cursor is fetched reaches the handler's \<^verbatim>\<open>catch\<close>: 500, nothing written.\<close>

definition listMessages :: "store \<Rightarrow> string \<Rightarrow> string \<Rightarrow> nat option \<Rightarrow> string option \<Rightarrow> response \<times> store" where
  "listMessages s uid chatId limit lastId =
     (case chats s chatId of
        None \<Rightarrow> (reply 404 ''Chat not found'', s)
      | Some chatData \<Rightarrow>
          if uid \<notin> set (c_participants chatData)
          then (reply 403 ''Not authorized to view messages in this chat'', s)
          else
            (case cursorDoc m_messageId (messages s) lastId of
               Inl err \<Rightarrow> (reply 500 err, s)
             | Inr cursor \<Rightarrow>
                 let page = messagesPage s chatId limit cursor;
                     unreadCount = int (length (flippedByList uid page));
                     s1 = s\<lparr>messages := markMessages (map m_messageId (flippedByList uid page)) (messages s)\<rparr>;
                     s2 = (if unreadCount > 0
                           then s1\<lparr>chats := (chats s1)(chatId \<mapsto>
                                   chatData\<lparr>c_unreadCount := (c_unreadCount chatData)
                                      (uid \<mapsto> max 0 (orZero (c_unreadCount chatData) uid - unreadCount))\<rparr>)\<rparr>
                           else s1)
                 in (\<lparr>status = 200, msg = '''',
                      payload = MessagesData page (lastIdOf m_messageId page)
                                  (length page \<ge> limitOf limit)\<rparr>, s2)))"

section \<open>POST /api/chats/:chatId/read\<close>

definition unreadFor :: "store \<Rightarrow> string \<Rightarrow> string \<Rightarrow> message list" where
  "unreadFor s uid chatId =
     filter (\<lambda>m. m_chatId m = chatId \<and> m_senderId m \<noteq> uid \<and> m_read m = False) (messages s)"

definition markChatRead :: "store \<Rightarrow> string \<Rightarrow> string \<Rightarrow> response \<times> store" where
  "markChatRead s uid chatId =
     (case chats s chatId of
        None \<Rightarrow> (reply 404 ''Chat not found'', s)
      | Some chatData \<Rightarrow>
          if uid \<notin> set (c_participants chatData)
          then (reply 403 ''Not authorized to access this chat'', s)
          else if unreadFor s uid chatId \<noteq> []
          then (reply 200 ''Messages marked as read'',
                s\<lparr>messages := markMessages (map m_messageId (unreadFor s uid chatId)) (messages s),
                  chats := (chats s)(chatId \<mapsto>
                     chatData\<lparr>c_unreadCount := (c_unreadCount chatData)(uid \<mapsto> 0)\<rparr>)\<rparr>)
          else (reply 200 ''Messages marked as read'', s))"

section \<open>utils/notifications.js: getUserNotifications and markNotificationsAsRead\<close>





definition markNotifications :: "string list \<Rightarrow> notification list \<Rightarrow> notification list" where
  "markNotifications ids ns =
     map (\<lambda>n. if n_notificationId n \<in> set ids then n\<lparr>n_read := True\<rparr> else n) ns"

text \<open>
  The loop over an explicit list: \<^verbatim>\<open>collections.notifications.doc(notificationId).get()\<close>
  for each id; the documents that exist and whose \<^verbatim>\<open>userId\<close> is the caller are put into
  the batch.  \<^verbatim>\<open>ownedIds\<close> are the ids of these documents.
\<close>

definition ownedIds :: "store \<Rightarrow> string \<Rightarrow> string list \<Rightarrow> string list" where
  "ownedIds s userId ids =
     concat (map (\<lambda>i. case docGet n_notificationId (notifications s) i of
                         Inr (Some d) \<Rightarrow> (if n_userId d = userId then [n_notificationId d] else [])
                       | other \<Rightarrow> []) ids)"

text \<open>
  The argument is \<^verbatim>\<open>None\<close> when the caller passes no list (the default \<^verbatim>\<open>[]\<close> applies).
  An id for which the fetch of the document throws makes the function rethrow before
  the batch is committed.
\<close>

definition markNotificationsAsRead :: "store \<Rightarrow> string \<Rightarrow> string list option \<Rightarrow> outcome \<times> store" where
  "markNotificationsAsRead s userId idsArg =
     (let notificationIds = (case idsArg of None \<Rightarrow> [] | Some l \<Rightarrow> l) in
      if length notificationIds > 0 then
        (if list_ex (\<lambda>i. isl (docGet n_notificationId (notifications s) i)) notificationIds
         then (Threw ''invalid document path'', s)
         else (Returned,
               s\<lparr>notifications := markNotifications (ownedIds s userId notificationIds) (notifications s)\<rparr>))
      else
        (Returned,
         s\<lparr>notifications :=
             markNotifications
               (map n_notificationId
                  (filter (\<lambda>n. n_userId n = userId \<and> n_read n = False) (notifications s)))
               (notifications s)\<rparr>))"

section \<open>POST /api/users/follow/:userId\<close>

definition followTransaction :: "env \<Rightarrow> store \<Rightarrow> string \<Rightarrow> user \<Rightarrow> string \<Rightarrow> user \<Rightarrow> store" where
  "followTransaction e s currentUserId currentUserData userId targetUserData =
     s\<lparr>users := (users s)
          (currentUserId \<mapsto> currentUserData\<lparr>u_following := u_following currentUserData @ [userId]\<rparr>,
           userId \<mapsto> targetUserData\<lparr>u_followers := u_followers targetUserData @ [currentUserId]\<rparr>),
       follows := (follows s)
          (currentUserId @ ''_'' @ userId \<mapsto>
             \<lparr>f_followerId = currentUserId, f_followingId = userId, f_createdAt = now e\<rparr>)\<rparr>"

text \<open>
  The call of the dispatcher is a plain \<^verbatim>\<open>await\<close> inside the handler's only \<^verbatim>\<open>try\<close>:
  when it throws, the handler's \<^verbatim>\<open>catch\<close> answers 500 with the error's message.
\<close>

definition follow :: "env \<Rightarrow> store \<Rightarrow> string \<Rightarrow> string \<Rightarrow> response \<times> store" where
  "follow e s currentUserId userId =
     (if currentUserId = userId then (reply 400 ''Cannot follow yourself'', s)
      else (case users s userId of
          None \<Rightarrow> (reply 404 ''User not found'', s)
        | Some targetUserData \<Rightarrow>
            (case users s currentUserId of
               None \<Rightarrow> (reply 500 ''Cannot read properties of undefined'', s)
             | Some currentUserData \<Rightarrow>
                 if userId \<in> set (u_following currentUserData)
                 then (reply 400 ''Already following this user'', s)
                 else
                   let s1 = followTransaction e s currentUserId currentUserData userId targetUserData;
                       r = sendNotification e s1
                             \<lparr>np_userId = Some userId, np_type = ''follow'', np_actorId = currentUserId,
                              np_actorName = u_name currentUserData,
                              np_message = u_name currentUserData @ '' started following you'',
                              np_data = [(''followerId'', currentUserId)]\<rparr>
                   in (case fst r of
                         Returned \<Rightarrow> (reply 200 ''User followed successfully'', snd r)
                       | Threw err \<Rightarrow> (reply 500 err, snd r)))))"

section \<open>Schedules of two handlers on one chat\<close>

text \<open>
  The send handler reads the chat with \<^verbatim>\<open>collections.chats.doc(chatId).get()\<close>, outside
  the transaction, and awaits \<^verbatim>\<open>db.runTransaction\<close> afterwards, so another request can
  be served between the read and the commit.

  \<^verbatim>\<open>racingSends\<close>: two sends whose reads are both answered before either transaction
  commits; the two transactions then commit one after the other.
\<close>

definition racingSends ::
  "env \<Rightarrow> env \<Rightarrow> store \<Rightarrow> string \<Rightarrow> string \<Rightarrow> send_body \<Rightarrow> string \<Rightarrow> send_body \<Rightarrow> store option" where
  "racingSends eA eB s chatId uidA bA uidB bB =
     (case sendPrepare eA s uidA chatId bA of
        Inl r \<Rightarrow> None
      | Inr pA \<Rightarrow>
          (case sendPrepare eB s uidB chatId bB of
             Inl r \<Rightarrow> None
           | Inr pB \<Rightarrow> Option.bind (sendTransaction pA s) (sendTransaction pB)))"

text \<open>
  \<^verbatim>\<open>sendAcrossRead\<close>: a send by a user whose read of the chat is answered, then a
  mark-chat-read by the same user is served completely, then the transaction of the send
  commits.
\<close>

definition sendAcrossRead :: "env \<Rightarrow> store \<Rightarrow> string \<Rightarrow> string \<Rightarrow> send_body \<Rightarrow> store option" where
  "sendAcrossRead e s uid chatId b =
     (case sendPrepare e s uid chatId b of
        Inl r \<Rightarrow> None
      | Inr p \<Rightarrow> sendTransaction p (snd (markChatRead s uid chatId)))"

section \<open>Example data\<close>

text \<open>
  Two users, Alice and Bob; Bob has three registered tokens, of which the gateway
  rejects \<^verbatim>\<open>t2\<close> as not registered and \<^verbatim>\<open>t3\<close> with an internal error.  The stores below
  hold their chat \<^verbatim>\<open>alice_bob\<close> in several states.
\<close>

definition alice :: user where
  "alice = \<lparr>u_name = ''Alice'', u_username = ''alice'', u_profilePic = '''',
            u_fcmTokens = [], u_following = [], u_followers = []\<rparr>"

definition bob :: user where
  "bob = \<lparr>u_name = ''Bob'', u_username = ''bob'', u_profilePic = '''',
          u_fcmTokens = [''t1'', ''t2'', ''t3''], u_following = [], u_followers = []\<rparr>"

definition gateway :: "string \<Rightarrow> push_result" where
  "gateway t = (if t = ''t2'' then Rejected ''messaging/registration-token-not-registered''
                else if t = ''t3'' then Rejected ''messaging/internal-error''
                else Delivered)"

definition env0 :: env where
  "env0 = \<lparr>now = 100, autoId = ''m1'', notifNow = 101, notifId = ''n1'',
           sendToDevice = gateway, storeFails = (\<lambda>c. False)\<rparr>"

definition store0 :: store where
  "store0 = \<lparr>users = [''alice'' \<mapsto> alice, ''bob'' \<mapsto> bob], chats = Map.empty,
             messages = [], notifications = [], follows = Map.empty, pushLog = []\<rparr>"

definition notice :: "string \<Rightarrow> string \<Rightarrow> bool \<Rightarrow> nat \<Rightarrow> notification" where
  "notice i u r t = \<lparr>n_notificationId = i, n_userId = u, n_type = ''like'', n_actorId = ''carol'',
                   n_actorName = ''Carol'', n_message = ''Carol liked your post'', n_data = [],
                   n_read = r, n_createdAt = t\<rparr>"

definition storeN :: store where
  "storeN = store0\<lparr>notifications := [notice ''n1'' ''bob'' False 10, notice ''n2'' ''alice'' False 20,
                                       notice ''n3'' ''bob'' True 30, notice ''n4'' ''bob'' False 40]\<rparr>"

definition letter :: "string \<Rightarrow> string \<Rightarrow> string \<Rightarrow> bool \<Rightarrow> nat \<Rightarrow> message" where
  "letter i sender t r at =
     \<lparr>m_messageId = i, m_chatId = ''alice_bob'', m_senderId = sender, m_text = t,
      m_mediaUrl = '''', m_type = ''text'', m_read = r, m_createdAt = at\<rparr>"

definition chatAB :: chat where
  "chatAB = \<lparr>c_chatId = ''alice_bob'', c_participants = [''alice'', ''bob''], c_createdAt = 5,
             c_lastMessageAt = 30,
             c_lastMessage = \<lparr>lm_text = ''three'', lm_senderId = ''alice'', lm_type = ''text''\<rparr>,
             c_unreadCount = [''alice'' \<mapsto> 1, ''bob'' \<mapsto> 2]\<rparr>"

definition storeM :: store where
  "storeM = store0\<lparr>chats := [''alice_bob'' \<mapsto> chatAB],
                   messages := [letter ''a1'' ''alice'' ''one'' False 10,
                                letter ''b2'' ''bob'' ''two'' False 20,
                                letter ''a3'' ''alice'' ''three'' False 30]\<rparr>"

definition textBody :: "string \<Rightarrow> send_body" where
  "textBody t = \<lparr>b_text = Some t, b_mediaUrl = None, b_type = None\<rparr>"

definition env1 :: env where
  "env1 = \<lparr>now = 200, autoId = ''m4'', notifNow = 201, notifId = ''n9'',
           sendToDevice = gateway, storeFails = (\<lambda>c. False)\<rparr>"

definition chatA :: chat where
  "chatA = \<lparr>c_chatId = ''alice_bob'', c_participants = [''alice'', ''bob''], c_createdAt = 5,
            c_lastMessageAt = 10,
            c_lastMessage = \<lparr>lm_text = ''one'', lm_senderId = ''alice'', lm_type = ''text''\<rparr>,
            c_unreadCount = [''alice'' \<mapsto> 0, ''bob'' \<mapsto> 1]\<rparr>"

definition storeA :: store where
  "storeA = store0\<lparr>chats := [''alice_bob'' \<mapsto> chatA],
                   messages := [letter ''a1'' ''alice'' ''one'' False 10]\<rparr>"

definition chatD :: chat where
  "chatD = chatA\<lparr>c_lastMessageAt := 200,
                 c_lastMessage := \<lparr>lm_text = ''two'', lm_senderId = ''bob'', lm_type = ''text''\<rparr>,
                 c_unreadCount := [''alice'' \<mapsto> 1, ''bob'' \<mapsto> 1]\<rparr>"

definition storeD :: store where
  "storeD = store0\<lparr>chats := [''alice_bob'' \<mapsto> chatD],
                   messages := [letter ''a1'' ''alice'' ''one'' True 10,
                                letter ''m4'' ''bob'' ''two'' False 200]\<rparr>"

definition likeParams :: notification_params where
  "likeParams = \<lparr>np_userId = Some ''bob'', np_type = ''like'', np_actorId = ''alice'',
                 np_actorName = ''Alice'', np_message = ''Alice liked your post'',
                 np_data = [(''postId'', ''p1'')]\<rparr>"

definition imageBody :: send_body where
  "imageBody = \<lparr>b_text = Some ''look'', b_mediaUrl = Some ''http://img/1.png'', b_type = Some ''image''\<rparr>"

definition storeC :: store where
  "storeC = store0\<lparr>chats := [''alice_bob'' \<mapsto> newChat env0 ''alice'' ''bob'']\<rparr>"

definition envDown :: env where
  "envDown = env0\<lparr>storeFails := (\<lambda>c. c = NotificationSet)\<rparr>"

text \<open>The unread counters of the two example users on a chat, as the chat list shows them.\<close>

definition countersOf :: "store \<Rightarrow> string \<Rightarrow> (int \<times> int) option" where
  "countersOf s chatId =
     map_option (\<lambda>c. (orZero (c_unreadCount c) ''alice'', orZero (c_unreadCount c) ''bob'')) (chats s chatId)"

section \<open>Get-or-create chat\<close>





section \<open>Marking notifications read\<close>

lemma distinct_ids_member:
  assumes "distinct (map f xs)" and "x \<in> set xs"
  shows "(f x \<in> f ` {y \<in> set xs. P y}) = P x"
proof -
  have "inj_on f (set xs)" using assms(1) by (simp add: distinct_map)
  then show ?thesis using assms(2) by (auto dest: inj_onD)
qed

lemma markNotifications_filter:
  assumes "distinct (map n_notificationId ns)"
  shows "markNotifications (map n_notificationId (filter P ns)) ns =
         map (\<lambda>n. if P n then n\<lparr>n_read := True\<rparr> else n) ns"
  unfolding markNotifications_def
  by (rule map_cong) (simp_all add: distinct_ids_member [OF assms])

text \<open>
  Claim C10.  Mark-notifications-read called with an explicitly given empty list of ids
  behaves as the call with no list: the result is the same, the call returns, and every
  notification of the user is read afterwards; with unique document ids, exactly the
  unread notifications of the user are flipped and every other document is unchanged.
\<close>

theorem markNotificationsAsRead_empty_list:
  "markNotificationsAsRead s userId (Some []) = markNotificationsAsRead s userId None \<and>
   fst (markNotificationsAsRead s userId (Some [])) = Returned \<and>
   (\<forall>n \<in> set (notifications (snd (markNotificationsAsRead s userId (Some [])))).
        n_userId n = userId \<longrightarrow> n_read n) \<and>
   (distinct (map n_notificationId (notifications s)) \<longrightarrow>
      notifications (snd (markNotificationsAsRead s userId (Some []))) =
        map (\<lambda>n. if n_userId n = userId \<and> n_read n = False then n\<lparr>n_read := True\<rparr> else n)
          (notifications s))"
  by (auto simp: markNotificationsAsRead_def markNotifications_filter)
     (auto simp: markNotifications_def)

theorem markNotificationsAsRead_empty_list_witness:
  "distinct (map n_notificationId (notifications storeN)) \<and>
   markNotificationsAsRead storeN ''bob'' (Some []) = markNotificationsAsRead storeN ''bob'' None \<and>
   notifications (snd (markNotificationsAsRead storeN ''bob'' (Some []))) =
     [notice ''n1'' ''bob'' True 10, notice ''n2'' ''alice'' False 20,
      notice ''n3'' ''bob'' True 30, notice ''n4'' ''bob'' True 40]"
  using markNotificationsAsRead_empty_list [of storeN "''bob''"]
  by (simp add: storeN_def notice_def markNotificationsAsRead_def markNotifications_def)

section \<open>Pagination\<close>

lemma set_insertDesc: "set (insertDesc key x xs) = insert x (set xs)"
  by (induction xs) auto

lemma set_orderDesc: "set (orderDesc key xs) = set xs"
  by (induction xs) (simp_all add: orderDesc_def set_insertDesc)






lemma set_runQuery: "set (runQuery key xs n c) \<subseteq> set xs"
proof -
  have "set (runQuery key xs n c) \<subseteq> set (orderDesc key xs)"
    by (auto simp: runQuery_def startAfter_def split: option.splits dest: in_set_takeD)
  then show ?thesis by (simp add: set_orderDesc)
qed

lemma splitSlash_no_slash: "CHR ''/'' \<notin> set cs \<Longrightarrow> splitSlash acc cs = [rev acc @ cs]"
  by (induction cs arbitrary: acc) auto

lemma hasDoubleSlash_no_slash: "CHR ''/'' \<notin> set cs \<Longrightarrow> \<not> hasDoubleSlash cs"
  by (induction cs rule: hasDoubleSlash.induct) auto

lemma docGet_plain:
  assumes "i \<noteq> ''''" and "CHR ''/'' \<notin> set i" and "\<not> reservedId i"
  shows "docGet ident coll i = Inr (List.find (\<lambda>d. ident d = i) coll)"
proof -
  have seg: "pathSegments i = [i]"
    using assms(1,2) by (simp add: pathSegments_def splitSlash_no_slash)
  show ?thesis
    using assms by (simp add: docGet_def seg hasDoubleSlash_no_slash)
qed

lemma cursorDoc_missing:
  "lastId = None \<or> lastId = Some '''' \<or>
   (\<exists>i. lastId = Some i \<and> CHR ''/'' \<notin> set i \<and> \<not> reservedId i \<and> i \<notin> ident ` set coll) \<Longrightarrow>
   cursorDoc ident coll lastId = Inr None"
  by (auto simp: cursorDoc_def docGet_plain find_None_iff)


lemma page_storeM_2: "messagesPage storeM ''alice_bob'' (Some 2) None =
   [letter ''a3'' ''alice'' ''three'' False 30, letter ''b2'' ''bob'' ''two'' False 20]"
  by (simp add: messagesPage_def storeM_def store0_def letter_def runQuery_def
        orderDesc_def earlier_def messageKey_def limitOf_def)

lemma plain_zz: "CHR ''/'' \<notin> set ''zz'' \<and> \<not> reservedId ''zz'' \<and> CHR ''/'' \<notin> set ''n7'' \<and> \<not> reservedId ''n7''"
  by (simp add: reservedId_def)

lemma cursor_zz: "cursorDoc m_messageId (messages storeM) (Some ''zz'') = Inr None"
  by (rule cursorDoc_missing) (simp add: plain_zz storeM_def letter_def)



section \<open>Preconditions of send-message\<close>












lemma trim_examples:
  "trim ''hi'' = ''hi''" "trim ''  '' = ''''" "trim ''two'' = ''two''"
  "trim ''hi bob'' = ''hi bob''" "trim ''hi alice'' = ''hi alice''"
  by (simp_all add: trim_def whiteSpace_def)

lemma sendFinish_status: "status (fst (sendFinish e s p)) = 201"
  by (simp add: sendFinish_def)





section \<open>Reading messages\<close>

lemma id_in_image_iff:
  assumes "distinct (map f xs)" and "A \<subseteq> set xs" and "x \<in> set xs"
  shows "(f x \<in> f ` A) = (x \<in> A)"
proof -
  have "inj_on f (set xs)" using assms(1) by (simp add: distinct_map)
  then show ?thesis using assms(2,3) by (auto dest: inj_onD)
qed

lemma markMessages_subset:
  assumes "distinct (map m_messageId ms)" and "set sel \<subseteq> set ms"
  shows "markMessages (map m_messageId sel) ms =
         map (\<lambda>m. if m \<in> set sel then m\<lparr>m_read := True\<rparr> else m) ms"
  unfolding markMessages_def
  by (rule map_cong) (simp_all add: id_in_image_iff [OF assms])

lemma distinct_insertDesc: "distinct (insertDesc key x xs) = (x \<notin> set xs \<and> distinct xs)"
  by (induction xs) (auto simp: set_insertDesc)

lemma distinct_orderDesc: "distinct xs \<Longrightarrow> distinct (orderDesc key xs)"
  by (induction xs) (simp_all add: orderDesc_def distinct_insertDesc set_orderDesc [unfolded orderDesc_def])

lemma distinct_runQuery: "distinct xs \<Longrightarrow> distinct (runQuery key xs n c)"
  by (auto simp: runQuery_def startAfter_def distinct_orderDesc split: option.splits)

lemma set_messagesPage: "set (messagesPage s chatId limit cursor) \<subseteq> set (messages s)"
  using set_runQuery [of messageKey "filter (\<lambda>m. m_chatId m = chatId) (messages s)"]
  by (auto simp: messagesPage_def)

lemma distinct_messagesPage:
  "distinct (messages s) \<Longrightarrow> distinct (messagesPage s chatId limit cursor)"
  by (simp add: messagesPage_def distinct_runQuery)

lemma length_filter_within:
  assumes "distinct xs" and "distinct ys" and "set ys \<subseteq> set xs"
  shows "length (filter P ys) = length (filter (\<lambda>x. x \<in> set ys \<and> P x) xs)"
proof -
  have "length (filter P ys) = card {x \<in> set ys. P x}"
    using assms(2) by (simp add: distinct_length_filter Collect_conj_eq Int_commute)
  moreover have "length (filter (\<lambda>x. x \<in> set ys \<and> P x) xs) = card {x \<in> set xs. x \<in> set ys \<and> P x}"
    using assms(1) by (simp add: distinct_length_filter Collect_conj_eq Int_commute Int_assoc)
  moreover have "{x \<in> set xs. x \<in> set ys \<and> P x} = {x \<in> set ys. P x}"
    using assms(3) by auto
  ultimately show ?thesis by simp
qed

text \<open>
  Claim C6.  A participant lists a page of messages of a chat whose documents have
  unique ids, with a cursor that is absent or a well-formed document id, so that the
  fetch of the cursor document does not throw.  Exactly the messages of the returned page that are unread and not sent
  by the caller are flipped to read; every other message (sent by the caller, already
  read, or outside the page) is unchanged; the number of messages flipped is the count
  the handler uses; and the caller's unread counter becomes the old value minus that
  count, floored at zero, the counters of the other keys being unchanged.
\<close>

theorem listMessages_marks_page_read:
  assumes "chats s chatId = Some c"
      and "uid \<in> set (c_participants c)"
      and "distinct (map m_messageId (messages s))"
      and "0 \<le> orZero (c_unreadCount c) uid"
      and "cursorDoc m_messageId (messages s) lastId = Inr cursor"
  shows "messages (snd (listMessages s uid chatId limit lastId)) =
           map (\<lambda>m. if m \<in> set (messagesPage s chatId limit cursor) \<and> m_senderId m \<noteq> uid \<and> \<not> m_read m
                     then m\<lparr>m_read := True\<rparr> else m) (messages s)
       \<and> length (flippedByList uid (messagesPage s chatId limit cursor)) =
           length (filter (\<lambda>m. m \<in> set (messagesPage s chatId limit cursor) \<and> m_senderId m \<noteq> uid \<and> \<not> m_read m)
                     (messages s))
       \<and> (\<exists>c'. chats (snd (listMessages s uid chatId limit lastId)) chatId = Some c' \<and>
             orZero (c_unreadCount c') uid =
               max 0 (orZero (c_unreadCount c) uid
                        - int (length (flippedByList uid (messagesPage s chatId limit cursor)))) \<and>
             (\<forall>k. k \<noteq> uid \<longrightarrow> c_unreadCount c' k = c_unreadCount c k) \<and>
             c' = c\<lparr>c_unreadCount := c_unreadCount c'\<rparr>)
       \<and> (\<forall>k. k \<noteq> chatId \<longrightarrow> chats (snd (listMessages s uid chatId limit lastId)) k = chats s k)
       \<and> status (fst (listMessages s uid chatId limit lastId)) = 200"
proof -
  let ?page = "messagesPage s chatId limit cursor"
  let ?sel = "flippedByList uid ?page"
  let ?s' = "snd (listMessages s uid chatId limit lastId)"
  have dm: "distinct (messages s)" using assms(3) by (simp add: distinct_map)
  have sub: "set ?sel \<subseteq> set (messages s)"
    using set_messagesPage [of s chatId limit cursor] by (auto simp: flippedByList_def)
  have msgs: "messages ?s' = markMessages (map m_messageId ?sel) (messages s)"
    using assms(1,2,5) by (simp add: listMessages_def Let_def)
  have p1: "messages ?s' =
           map (\<lambda>m. if m \<in> set ?page \<and> m_senderId m \<noteq> uid \<and> \<not> m_read m
                     then m\<lparr>m_read := True\<rparr> else m) (messages s)"
    unfolding msgs markMessages_subset [OF assms(3) sub]
    by (simp add: flippedByList_def)
  have p2: "length ?sel =
           length (filter (\<lambda>m. m \<in> set ?page \<and> m_senderId m \<noteq> uid \<and> \<not> m_read m) (messages s))"
    unfolding flippedByList_def
    by (rule length_filter_within [OF dm distinct_messagesPage [OF dm] set_messagesPage])
  have p3: "\<exists>c'. chats ?s' chatId = Some c' \<and>
             orZero (c_unreadCount c') uid = max 0 (orZero (c_unreadCount c) uid - int (length ?sel)) \<and>
             (\<forall>k. k \<noteq> uid \<longrightarrow> c_unreadCount c' k = c_unreadCount c k) \<and>
             c' = c\<lparr>c_unreadCount := c_unreadCount c'\<rparr>"
  proof (cases "length ?sel > 0")
    case True
    then have "chats ?s' chatId =
        Some (c\<lparr>c_unreadCount := (c_unreadCount c)
                 (uid \<mapsto> max 0 (orZero (c_unreadCount c) uid - int (length ?sel)))\<rparr>)"
      using assms(1,2,5) by (simp add: listMessages_def Let_def)
    then show ?thesis by (simp add: orZero_def)
  next
    case False
    then have "chats ?s' chatId = Some c"
      using assms(1,2,5) by (simp add: listMessages_def Let_def)
    then show ?thesis using False assms(4) by simp
  qed
  have p4: "\<forall>k. k \<noteq> chatId \<longrightarrow> chats ?s' k = chats s k"
    using assms(1,2,5) by (simp add: listMessages_def Let_def)
  have p5: "status (fst (listMessages s uid chatId limit lastId)) = 200"
    using assms(1,2,5) by (simp add: listMessages_def Let_def)
  from p1 p2 p3 p4 p5 show ?thesis by blast
qed

theorem listMessages_marks_page_read_witness:
  "chats storeM ''alice_bob'' = Some chatAB \<and> ''bob'' \<in> set (c_participants chatAB) \<and>
   distinct (map m_messageId (messages storeM)) \<and> 0 \<le> orZero (c_unreadCount chatAB) ''bob'' \<and>
   cursorDoc m_messageId (messages storeM) (Some ''zz'') = Inr None \<and>
   messagesPage storeM ''alice_bob'' (Some 2) None =
     [letter ''a3'' ''alice'' ''three'' False 30, letter ''b2'' ''bob'' ''two'' False 20] \<and>
   messages (snd (listMessages storeM ''bob'' ''alice_bob'' (Some 2) (Some ''zz''))) =
     [letter ''a1'' ''alice'' ''one'' False 10, letter ''b2'' ''bob'' ''two'' False 20,
      letter ''a3'' ''alice'' ''three'' True 30] \<and>
   length (flippedByList ''bob'' (messagesPage storeM ''alice_bob'' (Some 2) None)) = 1 \<and>
   orZero (c_unreadCount chatAB) ''bob'' = 2 \<and>
   chats (snd (listMessages storeM ''bob'' ''alice_bob'' (Some 2) (Some ''zz''))) ''alice_bob'' =
     Some (chatAB\<lparr>c_unreadCount := [''alice'' \<mapsto> 1, ''bob'' \<mapsto> 1]\<rparr>)"
proof -
  have a: "chats storeM ''alice_bob'' = Some chatAB" by (simp add: storeM_def)
  have b: "''bob'' \<in> set (c_participants chatAB)" by (simp add: chatAB_def)
  have c: "distinct (map m_messageId (messages storeM))" by (simp add: storeM_def letter_def)
  have d: "0 \<le> orZero (c_unreadCount chatAB) ''bob''" "orZero (c_unreadCount chatAB) ''bob'' = 2"
    by (simp_all add: chatAB_def orZero_def)
  note t = listMessages_marks_page_read [OF a b c d(1) cursor_zz, of "Some 2"]
  have f: "length (flippedByList ''bob'' (messagesPage storeM ''alice_bob'' (Some 2) None)) = 1"
    by (simp add: page_storeM_2 flippedByList_def letter_def)
  have m: "messages (snd (listMessages storeM ''bob'' ''alice_bob'' (Some 2) (Some ''zz''))) =
     [letter ''a1'' ''alice'' ''one'' False 10, letter ''b2'' ''bob'' ''two'' False 20,
      letter ''a3'' ''alice'' ''three'' True 30]"
    using t by (simp add: page_storeM_2) (simp add: storeM_def letter_def)
  obtain c' where c': "chats (snd (listMessages storeM ''bob'' ''alice_bob'' (Some 2) (Some ''zz''))) ''alice_bob'' = Some c'"
      "orZero (c_unreadCount c') ''bob'' = max 0 (orZero (c_unreadCount chatAB) ''bob'' - 1)"
      "\<forall>k. k \<noteq> ''bob'' \<longrightarrow> c_unreadCount c' k = c_unreadCount chatAB k"
      "c' = chatAB\<lparr>c_unreadCount := c_unreadCount c'\<rparr>"
    using t f by auto
  have g: "chats (snd (listMessages storeM ''bob'' ''alice_bob'' (Some 2) (Some ''zz''))) ''alice_bob'' =
     Some (chatAB\<lparr>c_unreadCount := [''alice'' \<mapsto> 1, ''bob'' \<mapsto> 1]\<rparr>)"
    using a b by (simp add: listMessages_def Let_def cursor_zz page_storeM_2 flippedByList_def letter_def d(2))
                 (simp add: chatAB_def)
  from a b c d cursor_zz page_storeM_2 m f g show ?thesis by blast
qed

section \<open>Marking a chat read\<close>

lemma read_after_markMessages:
  assumes "m' \<in> set (markMessages (map m_messageId (unreadFor s uid chatId)) (messages s))"
      and "m_chatId m' = chatId" and "m_senderId m' \<noteq> uid"
  shows "m_read m'"
proof -
  from assms(1) obtain m where m: "m \<in> set (messages s)"
      and eq: "m' = (if m_messageId m \<in> set (map m_messageId (unreadFor s uid chatId))
                     then m\<lparr>m_read := True\<rparr> else m)"
    by (auto simp: markMessages_def)
  show ?thesis
  proof (cases "m_messageId m \<in> set (map m_messageId (unreadFor s uid chatId))")
    case True
    with eq show ?thesis by simp
  next
    case False
    with eq have same: "m' = m" by simp
    have "m \<notin> set (unreadFor s uid chatId)" using False by auto
    with m assms(2,3) same show ?thesis by (simp add: unreadFor_def)
  qed
qed

text \<open>
  Claim C2, amended.  After mark-chat-read by a participant on an existing chat, every
  message of the chat not sent by the caller has \<^verbatim>\<open>read == true\<close>.  When at least one such
  message was unread, the caller's unread counter on the chat is set to exactly zero (the
  other counters and fields of the chat are unchanged); when none was unread, the handler
  writes nothing, so the counter keeps the value it had.  With unique document ids, no
  other message is changed.
\<close>

theorem markChatRead_effect:
  assumes "chats s chatId = Some c" and "uid \<in> set (c_participants c)"
  shows "status (fst (markChatRead s uid chatId)) = 200
       \<and> (\<forall>m \<in> set (messages (snd (markChatRead s uid chatId))).
             m_chatId m = chatId \<and> m_senderId m \<noteq> uid \<longrightarrow> m_read m)
       \<and> (unreadFor s uid chatId \<noteq> [] \<longrightarrow>
             chats (snd (markChatRead s uid chatId)) chatId =
               Some (c\<lparr>c_unreadCount := (c_unreadCount c)(uid \<mapsto> 0)\<rparr>) \<and>
             orZero ((c_unreadCount c)(uid \<mapsto> 0)) uid = 0)
       \<and> (unreadFor s uid chatId = [] \<longrightarrow> snd (markChatRead s uid chatId) = s)
       \<and> (distinct (map m_messageId (messages s)) \<longrightarrow>
             messages (snd (markChatRead s uid chatId)) =
               map (\<lambda>m. if m_chatId m = chatId \<and> m_senderId m \<noteq> uid \<and> m_read m = False
                         then m\<lparr>m_read := True\<rparr> else m) (messages s))"
proof -
  let ?s' = "snd (markChatRead s uid chatId)"
  have p1: "status (fst (markChatRead s uid chatId)) = 200"
    using assms by (simp add: markChatRead_def reply_def)
  have p2: "\<forall>m \<in> set (messages ?s'). m_chatId m = chatId \<and> m_senderId m \<noteq> uid \<longrightarrow> m_read m"
  proof (cases "unreadFor s uid chatId = []")
    case True
    then have "?s' = s" using assms by (simp add: markChatRead_def)
    moreover have "\<forall>m \<in> set (messages s). m_chatId m = chatId \<and> m_senderId m \<noteq> uid \<longrightarrow> m_read m"
      using True by (auto simp: unreadFor_def filter_empty_conv)
    ultimately show ?thesis by simp
  next
    case False
    then have "messages ?s' = markMessages (map m_messageId (unreadFor s uid chatId)) (messages s)"
      using assms by (simp add: markChatRead_def)
    then show ?thesis using read_after_markMessages by auto
  qed
  have p3: "unreadFor s uid chatId \<noteq> [] \<longrightarrow>
             chats ?s' chatId = Some (c\<lparr>c_unreadCount := (c_unreadCount c)(uid \<mapsto> 0)\<rparr>) \<and>
             orZero ((c_unreadCount c)(uid \<mapsto> 0)) uid = 0"
    using assms by (simp add: markChatRead_def orZero_def)
  have p4: "unreadFor s uid chatId = [] \<longrightarrow> ?s' = s"
    using assms by (simp add: markChatRead_def)
  have p5: "distinct (map m_messageId (messages s)) \<longrightarrow>
             messages ?s' =
               map (\<lambda>m. if m_chatId m = chatId \<and> m_senderId m \<noteq> uid \<and> m_read m = False
                         then m\<lparr>m_read := True\<rparr> else m) (messages s)"
  proof
    assume d: "distinct (map m_messageId (messages s))"
    have sub: "set (unreadFor s uid chatId) \<subseteq> set (messages s)" by (auto simp: unreadFor_def)
    have mm: "markMessages (map m_messageId (unreadFor s uid chatId)) (messages s) =
              map (\<lambda>m. if m_chatId m = chatId \<and> m_senderId m \<noteq> uid \<and> m_read m = False
                         then m\<lparr>m_read := True\<rparr> else m) (messages s)"
      unfolding markMessages_subset [OF d sub] by (rule map_cong) (auto simp: unreadFor_def)
    show "messages ?s' =
               map (\<lambda>m. if m_chatId m = chatId \<and> m_senderId m \<noteq> uid \<and> m_read m = False
                         then m\<lparr>m_read := True\<rparr> else m) (messages s)"
    proof (cases "unreadFor s uid chatId = []")
      case True
      then have "?s' = s" using assms by (simp add: markChatRead_def)
      moreover have "markMessages (map m_messageId (unreadFor s uid chatId)) (messages s) = messages s"
        using True by (simp add: markMessages_def)
      ultimately show ?thesis using mm by simp
    next
      case False
      then have "messages ?s' = markMessages (map m_messageId (unreadFor s uid chatId)) (messages s)"
        using assms by (simp add: markChatRead_def)
      then show ?thesis using mm by simp
    qed
  qed
  from p1 p2 p3 p4 p5 show ?thesis by blast
qed

theorem markChatRead_effect_witness:
  "chats storeM ''alice_bob'' = Some chatAB \<and> ''bob'' \<in> set (c_participants chatAB) \<and>
   unreadFor storeM ''bob'' ''alice_bob'' =
     [letter ''a1'' ''alice'' ''one'' False 10, letter ''a3'' ''alice'' ''three'' False 30] \<and>
   distinct (map m_messageId (messages storeM)) \<and>
   status (fst (markChatRead storeM ''bob'' ''alice_bob'')) = 200 \<and>
   chats (snd (markChatRead storeM ''bob'' ''alice_bob'')) ''alice_bob'' =
     Some (chatAB\<lparr>c_unreadCount := (c_unreadCount chatAB)(''bob'' \<mapsto> 0)\<rparr>) \<and>
   messages (snd (markChatRead storeM ''bob'' ''alice_bob'')) =
     [letter ''a1'' ''alice'' ''one'' True 10, letter ''b2'' ''bob'' ''two'' False 20,
      letter ''a3'' ''alice'' ''three'' True 30] \<and>
   unreadFor storeD ''bob'' ''alice_bob'' = [] \<and>
   chats storeD ''alice_bob'' = Some chatD \<and> ''bob'' \<in> set (c_participants chatD) \<and>
   snd (markChatRead storeD ''bob'' ''alice_bob'') = storeD"
proof -
  have a: "chats storeM ''alice_bob'' = Some chatAB" by (simp add: storeM_def)
  have b: "''bob'' \<in> set (c_participants chatAB)" by (simp add: chatAB_def)
  have u: "unreadFor storeM ''bob'' ''alice_bob'' =
     [letter ''a1'' ''alice'' ''one'' False 10, letter ''a3'' ''alice'' ''three'' False 30]"
    by (simp add: unreadFor_def storeM_def letter_def)
  have d: "distinct (map m_messageId (messages storeM))" by (simp add: storeM_def letter_def)
  note t = markChatRead_effect [OF a b]
  have r1: "status (fst (markChatRead storeM ''bob'' ''alice_bob'')) = 200" using t by blast
  have r2: "chats (snd (markChatRead storeM ''bob'' ''alice_bob'')) ''alice_bob'' =
     Some (chatAB\<lparr>c_unreadCount := (c_unreadCount chatAB)(''bob'' \<mapsto> 0)\<rparr>)"
    using t u by simp
  have r3: "messages (snd (markChatRead storeM ''bob'' ''alice_bob'')) =
     [letter ''a1'' ''alice'' ''one'' True 10, letter ''b2'' ''bob'' ''two'' False 20,
      letter ''a3'' ''alice'' ''three'' True 30]"
    using t d by (simp add: storeM_def letter_def)
  have a': "chats storeD ''alice_bob'' = Some chatD" by (simp add: storeD_def)
  have b': "''bob'' \<in> set (c_participants chatD)" by (simp add: chatD_def chatA_def)
  have u': "unreadFor storeD ''bob'' ''alice_bob'' = []"
    by (simp add: unreadFor_def storeD_def letter_def)
  have r4: "snd (markChatRead storeD ''bob'' ''alice_bob'') = storeD"
    using markChatRead_effect [OF a' b'] u' by blast
  from a b u d r1 r2 r3 a' b' u' r4 show ?thesis by blast
qed

text \<open>
  The claim as stated fails.  Bob has one unread message from Alice.  A send by Bob reads
  the chat, Bob's mark-chat-read is served, and the send commits: the store is then
  \<^verbatim>\<open>storeD\<close>, where no message for Bob is unread and Bob's counter is 1.  Mark-chat-read by
  Bob on that store answers 200 and leaves the counter at 1.
\<close>

theorem markChatRead_counter_counterexample:
  "sendAcrossRead env1 storeA ''bob'' ''alice_bob'' (textBody ''two'') = Some storeD \<and>
   chats storeD ''alice_bob'' = Some chatD \<and> ''bob'' \<in> set (c_participants chatD) \<and>
   unreadFor storeD ''bob'' ''alice_bob'' = [] \<and>
   orZero (c_unreadCount chatD) ''bob'' = 1 \<and>
   markChatRead storeD ''bob'' ''alice_bob'' = (reply 200 ''Messages marked as read'', storeD) \<and>
   orZero (c_unreadCount chatD) ''bob'' \<noteq> 0"
proof -
  have p: "sendPrepare env1 storeA ''bob'' ''alice_bob'' (textBody ''two'') =
       Inr \<lparr>p_uid = ''bob'', p_chatId = ''alice_bob'', p_body = textBody ''two'', p_chatData = chatA,
            p_otherParticipantId = Some ''alice'',
            p_messageData = letter ''m4'' ''bob'' ''two'' False 200\<rparr>"
    by (simp add: sendPrepare_def storeA_def chatA_def textBody_def typeOf_def falsy_def orEmpty_def
          trim_examples findOther_def env1_def letter_def)
  have r: "snd (markChatRead storeA ''bob'' ''alice_bob'') =
       storeA\<lparr>messages := [letter ''a1'' ''alice'' ''one'' True 10],
              chats := [''alice_bob'' \<mapsto> chatA\<lparr>c_unreadCount := [''alice'' \<mapsto> 0, ''bob'' \<mapsto> 0]\<rparr>]\<rparr>"
    by (simp add: markChatRead_def storeA_def chatA_def unreadFor_def markMessages_def letter_def)
  have tw: "[''bob'' \<mapsto> 1, ''alice'' \<mapsto> (1::int)] = [''alice'' \<mapsto> 1, ''bob'' \<mapsto> 1]"
    by (rule fun_upd_twist) simp
  have reach: "sendAcrossRead env1 storeA ''bob'' ''alice_bob'' (textBody ''two'') = Some storeD"
    unfolding sendAcrossRead_def p r
    by (simp add: tw sendTransaction_def storeA_def storeD_def chatD_def chatA_def setMessage_def
          snapshotOf_def bumpedUnread_def propertyKey_def orZero_def letter_def textBody_def
          typeOf_def orEmpty_def)
  have rest: "chats storeD ''alice_bob'' = Some chatD \<and> ''bob'' \<in> set (c_participants chatD) \<and>
   unreadFor storeD ''bob'' ''alice_bob'' = [] \<and>
   orZero (c_unreadCount chatD) ''bob'' = 1 \<and>
   markChatRead storeD ''bob'' ''alice_bob'' = (reply 200 ''Messages marked as read'', storeD) \<and>
   orZero (c_unreadCount chatD) ''bob'' \<noteq> 0"
    by (simp add: storeD_def chatD_def chatA_def markChatRead_def unreadFor_def letter_def orZero_def)
  from reach rest show ?thesis by simp
qed

section \<open>The notification dispatcher\<close>

lemma sendToToken_frame:
  "messages (snd (sendToToken e userId t acc)) = messages (snd acc) \<and>
   chats (snd (sendToToken e userId t acc)) = chats (snd acc) \<and>
   notifications (snd (sendToToken e userId t acc)) = notifications (snd acc) \<and>
   follows (snd (sendToToken e userId t acc)) = follows (snd acc) \<and>
   pushLog (snd (sendToToken e userId t acc)) = pushLog (snd acc) @ [t]"
  by (auto simp: sendToToken_def Let_def split: push_result.splits)

lemma fanOut_frame:
  "messages (snd (fanOut e userId ts acc)) = messages (snd acc) \<and>
   chats (snd (fanOut e userId ts acc)) = chats (snd acc) \<and>
   notifications (snd (fanOut e userId ts acc)) = notifications (snd acc) \<and>
   follows (snd (fanOut e userId ts acc)) = follows (snd acc) \<and>
   pushLog (snd (fanOut e userId ts acc)) = pushLog (snd acc) @ ts"
proof (induction ts arbitrary: acc)
  case Nil
  then show ?case by simp
next
  case (Cons t ts)
  show ?case using Cons.IH [of "sendToToken e userId t acc"] sendToToken_frame [of e userId t acc]
    by simp
qed

lemma sendNotification_frame:
  "messages (snd (sendNotification e s p)) = messages s \<and>
   chats (snd (sendNotification e s p)) = chats s \<and>
   follows (snd (sendNotification e s p)) = follows s"
  by (auto simp: sendNotification_def Let_def fanOut_frame split: option.splits)

text \<open>No path of the dispatcher writes a user document: no token is ever removed.\<close>

lemma sendToToken_users: "users (snd (sendToToken e userId t acc)) = users (snd acc)"
  by (auto simp: sendToToken_def Let_def split: push_result.splits)

lemma fanOut_users: "users (snd (fanOut e userId ts acc)) = users (snd acc)"
  by (induction ts arbitrary: acc) (simp_all add: sendToToken_users)

lemma sendNotification_users: "users (snd (sendNotification e s p)) = users s"
  by (auto simp: sendNotification_def Let_def fanOut_users split: option.splits)

text \<open>
  Claim C3 (refuted by the code).  Bob has three registered tokens; the gateway delivers
  to \<^verbatim>\<open>t1\<close>, rejects \<^verbatim>\<open>t2\<close> as not registered and rejects \<^verbatim>\<open>t3\<close> with an internal error.
  The notification record is persisted and delivery is attempted to the three tokens, in
  order; but the removal of \<^verbatim>\<open>t2\<close> fails: \<^verbatim>\<open>db.FieldValue\<close> is undefined, the \<^verbatim>\<open>catch\<close>
  handler of that delivery throws before \<^verbatim>\<open>update\<close> is called, \<^verbatim>\<open>Promise.all\<close> rejects and
  the dispatcher rethrows.  Bob's document is unchanged: \<^verbatim>\<open>t2\<close> is still registered.
\<close>

theorem sendNotification_keeps_invalid_token:
  "users store0 ''bob'' = Some bob \<and> u_fcmTokens bob = [''t1'', ''t2'', ''t3''] \<and>
   sendToDevice env0 ''t1'' = Delivered \<and>
   sendToDevice env0 ''t2'' = Rejected ''messaging/registration-token-not-registered'' \<and>
   sendToDevice env0 ''t3'' = Rejected ''messaging/internal-error'' \<and>
   sendNotification env0 store0 likeParams =
     (Threw ''Cannot read properties of undefined'',
      store0\<lparr>notifications :=
               [\<lparr>n_notificationId = ''n1'', n_userId = ''bob'', n_type = ''like'',
                 n_actorId = ''alice'', n_actorName = ''Alice'',
                 n_message = ''Alice liked your post'', n_data = [(''postId'', ''p1'')],
                 n_read = False, n_createdAt = 101\<rparr>],
             pushLog := [''t1'', ''t2'', ''t3'']\<rparr>) \<and>
   map_option u_fcmTokens (users (snd (sendNotification env0 store0 likeParams)) ''bob'') =
     Some [''t1'', ''t2'', ''t3'']"
proof -
  have a: "users store0 ''bob'' = Some bob" by (simp add: store0_def)
  have c: "u_fcmTokens bob = [''t1'', ''t2'', ''t3'']" by (simp add: bob_def)
  have g: "sendToDevice env0 ''t1'' = Delivered"
          "sendToDevice env0 ''t2'' = Rejected ''messaging/registration-token-not-registered''"
          "sendToDevice env0 ''t3'' = Rejected ''messaging/internal-error''"
    by (simp_all add: env0_def gateway_def)
  have d: "\<not> storeFails env0 NotificationSet" "\<not> storeFails env0 UserGet"
          "notifId env0 = ''n1''" "notifNow env0 = 101"
    by (simp_all add: env0_def)
  have r: "sendNotification env0 store0 likeParams =
     (Threw ''Cannot read properties of undefined'',
      store0\<lparr>notifications :=
               [\<lparr>n_notificationId = ''n1'', n_userId = ''bob'', n_type = ''like'',
                 n_actorId = ''alice'', n_actorName = ''Alice'',
                 n_message = ''Alice liked your post'', n_data = [(''postId'', ''p1'')],
                 n_read = False, n_createdAt = 101\<rparr>],
             pushLog := [''t1'', ''t2'', ''t3'']\<rparr>)"
    by (simp add: sendNotification_def Let_def likeParams_def d g a c sendToToken_def
          invalidTokenCode_def firstThrow_def notificationOf_def setNotification_def)
       (simp add: store0_def)
  have u: "map_option u_fcmTokens (users (snd (sendNotification env0 store0 likeParams)) ''bob'') =
     Some [''t1'', ''t2'', ''t3'']"
    unfolding r by (simp add: store0_def bob_def)
  from a c g r u show ?thesis by blast
qed

section \<open>Sending a message\<close>

lemma sendNotify_frame:
  "messages (snd (sendNotify e s p)) = messages s \<and> chats (snd (sendNotify e s p)) = chats s"
  by (simp add: sendNotify_def sendNotification_frame split: option.splits)

lemma setMessage_fresh:
  "m_messageId m \<notin> m_messageId ` set ms \<Longrightarrow> setMessage m ms = ms @ [m]"
proof -
  assume fresh: "m_messageId m \<notin> m_messageId ` set ms"
  have "\<forall>x \<in> set ms. m_messageId x \<noteq> m_messageId m"
  proof
    fix x assume "x \<in> set ms"
    then have "m_messageId x \<in> m_messageId ` set ms" by (rule imageI)
    with fresh show "m_messageId x \<noteq> m_messageId m" by auto
  qed
  then show ?thesis by (simp add: setMessage_def filter_id_conv)
qed

lemma findOther_differs: "findOther ps uid = Some other \<Longrightarrow> other \<noteq> uid \<and> other \<in> set ps"
  by (auto simp: findOther_def find_Some_iff)

text \<open>
  Claim C1, amended.  A send-message that succeeds (201) in a chat that has a participant
  other than the caller, with a fresh message id, has these effects, all written by the
  one transaction and none altered by the dispatch that follows: one new unread message
  of the chat by the caller is appended; the chat's last-message snapshot gets the
  sender, the type and the time of the new message, and as text the message's text for
  type text and the fixed string \<^verbatim>\<open>Sent an image\<close> for every other type; the unread counter
  of the other participant is incremented by exactly one and every other counter, the
  caller's own included, is unchanged; no other chat changes.
\<close>

theorem sendMessage_effects:
  assumes "status (fst (sendMessage e s uid chatId b)) = 201"
      and "chats s chatId = Some c"
      and "findOther (c_participants c) uid = Some other"
      and "autoId e \<notin> m_messageId ` set (messages s)"
  shows "(\<exists>p s1. sendPrepare e s uid chatId b = Inr p \<and> sendTransaction p s = Some s1 \<and>
            users s1 = users s \<and> notifications s1 = notifications s \<and>
            follows s1 = follows s \<and> pushLog s1 = pushLog s \<and>
            messages (snd (sendMessage e s uid chatId b)) = messages s1 \<and>
            chats (snd (sendMessage e s uid chatId b)) = chats s1)
       \<and> payload (fst (sendMessage e s uid chatId b)) =
            MessageData \<lparr>m_messageId = autoId e, m_chatId = chatId, m_senderId = uid,
                          m_text = orEmpty (b_text b), m_mediaUrl = orEmpty (b_mediaUrl b),
                          m_type = typeOf b, m_read = False, m_createdAt = now e\<rparr>
       \<and> messages (snd (sendMessage e s uid chatId b)) =
            messages s @ [\<lparr>m_messageId = autoId e, m_chatId = chatId, m_senderId = uid,
                           m_text = orEmpty (b_text b), m_mediaUrl = orEmpty (b_mediaUrl b),
                           m_type = typeOf b, m_read = False, m_createdAt = now e\<rparr>]
       \<and> chats (snd (sendMessage e s uid chatId b)) chatId =
            Some (c\<lparr>c_lastMessage :=
                       \<lparr>lm_text = (if typeOf b = ''text'' then orEmpty (b_text b) else ''Sent an image''),
                        lm_senderId = uid, lm_type = typeOf b\<rparr>,
                     c_lastMessageAt := now e,
                     c_unreadCount := (c_unreadCount c)(other \<mapsto> orZero (c_unreadCount c) other + 1)\<rparr>)
       \<and> orZero ((c_unreadCount c)(other \<mapsto> orZero (c_unreadCount c) other + 1)) other =
            orZero (c_unreadCount c) other + 1
       \<and> (\<forall>k. k \<noteq> other \<longrightarrow>
            ((c_unreadCount c)(other \<mapsto> orZero (c_unreadCount c) other + 1)) k = c_unreadCount c k)
       \<and> other \<noteq> uid
       \<and> (\<forall>k. k \<noteq> chatId \<longrightarrow> chats (snd (sendMessage e s uid chatId b)) k = chats s k)"
proof -
  let ?m = "\<lparr>m_messageId = autoId e, m_chatId = chatId, m_senderId = uid,
              m_text = orEmpty (b_text b), m_mediaUrl = orEmpty (b_mediaUrl b),
              m_type = typeOf b, m_read = False, m_createdAt = now e\<rparr>"
  let ?p = "\<lparr>p_uid = uid, p_chatId = chatId, p_body = b, p_chatData = c,
              p_otherParticipantId = Some other, p_messageData = ?m\<rparr>"
  let ?c1 = "c\<lparr>c_lastMessage :=
                 \<lparr>lm_text = (if typeOf b = ''text'' then orEmpty (b_text b) else ''Sent an image''),
                  lm_senderId = uid, lm_type = typeOf b\<rparr>,
               c_lastMessageAt := now e,
               c_unreadCount := (c_unreadCount c)(other \<mapsto> orZero (c_unreadCount c) other + 1)\<rparr>"
  let ?s1 = "s\<lparr>messages := messages s @ [?m], chats := (chats s)(chatId \<mapsto> ?c1)\<rparr>"
  have v1: "\<not> (typeOf b = ''text'' \<and> (falsy (b_text b) \<or> trim (orEmpty (b_text b)) = ''''))"
    using assms(1) by (auto simp: sendMessage_def sendPrepare_def reply_def)
  have v2: "\<not> (typeOf b = ''image'' \<and> falsy (b_mediaUrl b))"
    using assms(1) by (auto simp: sendMessage_def sendPrepare_def reply_def)
  have v3: "uid \<in> set (c_participants c)"
    using assms(1,2) v1 v2 by (auto simp: sendMessage_def sendPrepare_def reply_def split: if_splits)
  have prep: "sendPrepare e s uid chatId b = Inr ?p"
    using v1 v2 v3 assms(2,3) by (auto simp: sendPrepare_def)
  have tx: "sendTransaction ?p s = Some ?s1"
    using assms(2,4)
    by (simp add: sendTransaction_def setMessage_fresh snapshotOf_def bumpedUnread_def propertyKey_def)
  have run: "sendMessage e s uid chatId b = sendFinish e ?s1 ?p"
    by (simp add: sendMessage_def prep tx)
  have fr: "messages (snd (sendMessage e s uid chatId b)) = messages ?s1"
           "chats (snd (sendMessage e s uid chatId b)) = chats ?s1"
    unfolding run by (simp_all add: sendFinish_def sendNotify_frame)
  have q1: "\<exists>p s1. sendPrepare e s uid chatId b = Inr p \<and> sendTransaction p s = Some s1 \<and>
            users s1 = users s \<and> notifications s1 = notifications s \<and>
            follows s1 = follows s \<and> pushLog s1 = pushLog s \<and>
            messages (snd (sendMessage e s uid chatId b)) = messages s1 \<and>
            chats (snd (sendMessage e s uid chatId b)) = chats s1"
  proof -
    have "users ?s1 = users s \<and> notifications ?s1 = notifications s \<and>
          follows ?s1 = follows s \<and> pushLog ?s1 = pushLog s"
      by simp
    then show ?thesis using prep tx fr by blast
  qed
  have q2: "payload (fst (sendMessage e s uid chatId b)) = MessageData ?m"
    unfolding run by (simp add: sendFinish_def)
  have q3: "messages (snd (sendMessage e s uid chatId b)) = messages s @ [?m]"
    using fr(1) by simp
  have q4: "chats (snd (sendMessage e s uid chatId b)) chatId = Some ?c1"
    using fr(2) by simp
  have q5: "orZero ((c_unreadCount c)(other \<mapsto> orZero (c_unreadCount c) other + 1)) other =
            orZero (c_unreadCount c) other + 1"
    by (simp add: orZero_def)
  have q6: "\<forall>k. k \<noteq> other \<longrightarrow>
            ((c_unreadCount c)(other \<mapsto> orZero (c_unreadCount c) other + 1)) k = c_unreadCount c k"
    by simp
  have q7: "other \<noteq> uid" using findOther_differs [OF assms(3)] by simp
  have q8: "\<forall>k. k \<noteq> chatId \<longrightarrow> chats (snd (sendMessage e s uid chatId b)) k = chats s k"
    using fr(2) by simp
  from q1 q2 q3 q4 q5 q6 q7 q8 show ?thesis by blast
qed

lemma send_hi_201: "status (fst (sendMessage env1 storeM ''alice'' ''alice_bob'' (textBody ''hi''))) = 201"
  by (auto simp: sendMessage_def sendPrepare_def sendTransaction_def sendFinish_status
        storeM_def chatAB_def typeOf_def textBody_def falsy_def orEmpty_def trim_examples)

theorem sendMessage_effects_witness:
  "status (fst (sendMessage env1 storeM ''alice'' ''alice_bob'' (textBody ''hi''))) = 201 \<and>
   chats storeM ''alice_bob'' = Some chatAB \<and>
   findOther (c_participants chatAB) ''alice'' = Some ''bob'' \<and>
   autoId env1 \<notin> m_messageId ` set (messages storeM) \<and>
   messages (snd (sendMessage env1 storeM ''alice'' ''alice_bob'' (textBody ''hi''))) =
     messages storeM @ [letter ''m4'' ''alice'' ''hi'' False 200] \<and>
   chats (snd (sendMessage env1 storeM ''alice'' ''alice_bob'' (textBody ''hi''))) ''alice_bob'' =
     Some (chatAB\<lparr>c_lastMessage := \<lparr>lm_text = ''hi'', lm_senderId = ''alice'', lm_type = ''text''\<rparr>,
                  c_lastMessageAt := 200,
                  c_unreadCount := [''alice'' \<mapsto> 1, ''bob'' \<mapsto> 3]\<rparr>)"
proof -
  have a: "chats storeM ''alice_bob'' = Some chatAB" by (simp add: storeM_def)
  have b: "findOther (c_participants chatAB) ''alice'' = Some ''bob''"
    by (simp add: findOther_def chatAB_def)
  have c: "autoId env1 \<notin> m_messageId ` set (messages storeM)"
    by (simp add: env1_def storeM_def letter_def)
  note t = sendMessage_effects [OF send_hi_201 a b c]
  have m: "messages (snd (sendMessage env1 storeM ''alice'' ''alice_bob'' (textBody ''hi''))) =
     messages storeM @ [letter ''m4'' ''alice'' ''hi'' False 200]"
    using t by (simp add: letter_def env1_def textBody_def typeOf_def orEmpty_def)
  have u: "(c_unreadCount chatAB)(''bob'' \<mapsto> orZero (c_unreadCount chatAB) ''bob'' + 1) =
           [''alice'' \<mapsto> 1, ''bob'' \<mapsto> 3]"
    by (simp add: chatAB_def orZero_def)
  have k: "chats (snd (sendMessage env1 storeM ''alice'' ''alice_bob'' (textBody ''hi''))) ''alice_bob'' =
     Some (chatAB\<lparr>c_lastMessage := \<lparr>lm_text = ''hi'', lm_senderId = ''alice'', lm_type = ''text''\<rparr>,
                  c_lastMessageAt := 200,
                  c_unreadCount := [''alice'' \<mapsto> 1, ''bob'' \<mapsto> 3]\<rparr>)"
    using t by (simp add: u env1_def textBody_def typeOf_def orEmpty_def)
  from send_hi_201 a b c m k show ?thesis by blast
qed

text \<open>
  The claim as stated fails: Alice sends an image with a caption; the send succeeds, and
  the text of the last-message snapshot is neither the text nor the media URL of the
  new message.
\<close>

theorem sendMessage_snapshot_counterexample:
  "fst (sendMessage env1 storeM ''alice'' ''alice_bob'' imageBody) =
     \<lparr>status = 201, msg = ''Message sent successfully'',
      payload = MessageData \<lparr>m_messageId = ''m4'', m_chatId = ''alice_bob'', m_senderId = ''alice'',
                  m_text = ''look'', m_mediaUrl = ''http://img/1.png'', m_type = ''image'',
                  m_read = False, m_createdAt = 200\<rparr>\<rparr> \<and>
   map_option c_lastMessage (chats (snd (sendMessage env1 storeM ''alice'' ''alice_bob'' imageBody)) ''alice_bob'') =
     Some \<lparr>lm_text = ''Sent an image'', lm_senderId = ''alice'', lm_type = ''image''\<rparr> \<and>
   ''Sent an image'' \<noteq> ''look'' \<and> ''Sent an image'' \<noteq> ''http://img/1.png''"
proof -
  have p: "sendPrepare env1 storeM ''alice'' ''alice_bob'' imageBody =
       Inr \<lparr>p_uid = ''alice'', p_chatId = ''alice_bob'', p_body = imageBody, p_chatData = chatAB,
            p_otherParticipantId = Some ''bob'',
            p_messageData = \<lparr>m_messageId = ''m4'', m_chatId = ''alice_bob'', m_senderId = ''alice'',
                  m_text = ''look'', m_mediaUrl = ''http://img/1.png'', m_type = ''image'',
                  m_read = False, m_createdAt = 200\<rparr>\<rparr>"
    by (simp add: sendPrepare_def storeM_def chatAB_def imageBody_def typeOf_def falsy_def orEmpty_def
          findOther_def env1_def)
  show ?thesis
    unfolding sendMessage_def p
    by (simp add: sendTransaction_def sendFinish_def sendNotify_frame snapshotOf_def
          typeOf_def storeM_def imageBody_def)
qed

section \<open>Dispatch failures\<close>

lemma sendMessage_isolates_dispatch:
  assumes "sendPrepare e s uid chatId b = Inr p" and "sendTransaction p s = Some s1"
  shows "status (fst (sendMessage e s uid chatId b)) = 201 \<and>
         messages (snd (sendMessage e s uid chatId b)) = messages s1 \<and>
         chats (snd (sendMessage e s uid chatId b)) = chats s1"
  using assms by (simp add: sendMessage_def sendFinish_def sendNotify_frame)

text \<open>
  Claim C4 (refuted by the code of follow).  The store rejects the write of the
  notification record, so the dispatcher throws.  Send-message still answers 201 with
  the message and the chat update committed.  Follow answers 500 although its
  transaction has committed: the follow edge and both users' lists are written.
\<close>

theorem follow_fails_when_dispatch_throws:
  "fst (sendNotification envDown store0
          \<lparr>np_userId = Some ''bob'', np_type = ''follow'', np_actorId = ''alice'',
           np_actorName = ''Alice'', np_message = ''Alice started following you'',
           np_data = [(''followerId'', ''alice'')]\<rparr>) = Threw ''set rejected'' \<and>
   fst (follow envDown store0 ''alice'' ''bob'') = reply 500 ''set rejected'' \<and>
   follows (snd (follow envDown store0 ''alice'' ''bob'')) ''alice_bob'' =
     Some \<lparr>f_followerId = ''alice'', f_followingId = ''bob'', f_createdAt = 100\<rparr> \<and>
   map_option u_following (users (snd (follow envDown store0 ''alice'' ''bob'')) ''alice'') = Some [''bob''] \<and>
   map_option u_followers (users (snd (follow envDown store0 ''alice'' ''bob'')) ''bob'') = Some [''alice''] \<and>
   fst (sendNotify envDown storeC
          \<lparr>p_uid = ''alice'', p_chatId = ''alice_bob'', p_body = textBody ''hi'',
           p_chatData = newChat env0 ''alice'' ''bob'', p_otherParticipantId = Some ''bob'',
           p_messageData = letter ''m1'' ''alice'' ''hi'' False 100\<rparr>) = Threw ''set rejected'' \<and>
   status (fst (sendMessage envDown storeC ''alice'' ''alice_bob'' (textBody ''hi''))) = 201 \<and>
   messages (snd (sendMessage envDown storeC ''alice'' ''alice_bob'' (textBody ''hi''))) =
     [letter ''m1'' ''alice'' ''hi'' False 100] \<and>
   countersOf (snd (sendMessage envDown storeC ''alice'' ''alice_bob'' (textBody ''hi''))) ''alice_bob'' =
     Some (0, 1)"
proof -
  have d: "storeFails envDown NotificationSet" by (simp add: envDown_def)
  have n: "fst (sendNotification envDown store0
          \<lparr>np_userId = Some ''bob'', np_type = ''follow'', np_actorId = ''alice'',
           np_actorName = ''Alice'', np_message = ''Alice started following you'',
           np_data = [(''followerId'', ''alice'')]\<rparr>) = Threw ''set rejected''"
    by (simp add: sendNotification_def d)
  have f: "follow envDown store0 ''alice'' ''bob'' =
             (reply 500 ''set rejected'', followTransaction envDown store0 ''alice'' alice ''bob'' bob)"
    by (simp add: follow_def Let_def sendNotification_def d store0_def alice_def)
  have f1: "follows (followTransaction envDown store0 ''alice'' alice ''bob'' bob) ''alice_bob'' =
     Some \<lparr>f_followerId = ''alice'', f_followingId = ''bob'', f_createdAt = 100\<rparr>"
    by (simp add: followTransaction_def envDown_def env0_def)
  have f2: "map_option u_following (users (followTransaction envDown store0 ''alice'' alice ''bob'' bob) ''alice'') = Some [''bob'']"
    by (simp add: followTransaction_def alice_def)
  have f3: "map_option u_followers (users (followTransaction envDown store0 ''alice'' alice ''bob'' bob) ''bob'') = Some [''alice'']"
    by (simp add: followTransaction_def bob_def)
  have sn: "fst (sendNotify envDown storeC
          \<lparr>p_uid = ''alice'', p_chatId = ''alice_bob'', p_body = textBody ''hi'',
           p_chatData = newChat env0 ''alice'' ''bob'', p_otherParticipantId = Some ''bob'',
           p_messageData = letter ''m1'' ''alice'' ''hi'' False 100\<rparr>) = Threw ''set rejected''"
    by (simp add: sendNotify_def sendNotification_def d storeC_def store0_def)
  have p: "sendPrepare envDown storeC ''alice'' ''alice_bob'' (textBody ''hi'') =
       Inr \<lparr>p_uid = ''alice'', p_chatId = ''alice_bob'', p_body = textBody ''hi'',
            p_chatData = newChat env0 ''alice'' ''bob'', p_otherParticipantId = Some ''bob'',
            p_messageData = letter ''m1'' ''alice'' ''hi'' False 100\<rparr>"
    by (simp add: sendPrepare_def storeC_def newChat_def sortPair_def textBody_def typeOf_def falsy_def
          orEmpty_def trim_examples findOther_def envDown_def env0_def letter_def)
  have s1: "status (fst (sendMessage envDown storeC ''alice'' ''alice_bob'' (textBody ''hi''))) = 201"
    unfolding sendMessage_def p by (simp add: sendTransaction_def sendFinish_def storeC_def)
  have s2: "messages (snd (sendMessage envDown storeC ''alice'' ''alice_bob'' (textBody ''hi''))) =
     [letter ''m1'' ''alice'' ''hi'' False 100]"
    unfolding sendMessage_def p
    by (simp add: sendTransaction_def sendFinish_def sendNotify_frame storeC_def store0_def setMessage_def)
  have s3: "countersOf (snd (sendMessage envDown storeC ''alice'' ''alice_bob'' (textBody ''hi''))) ''alice_bob'' =
     Some (0, 1)"
    unfolding sendMessage_def p countersOf_def
    by (simp add: sendTransaction_def sendFinish_def sendNotify_frame storeC_def bumpedUnread_def
          propertyKey_def newChat_def orZero_def)
  from n f f1 f2 f3 sn s1 s2 s3 show ?thesis by simp
qed

section \<open>Concurrent sends\<close>

lemma sendTransaction_writes_held_counters:
  assumes "sendTransaction p s = Some s'"
  shows "map_option c_unreadCount (chats s' (p_chatId p)) = Some (bumpedUnread p)"
  using assms by (auto simp: sendTransaction_def split: option.splits)

lemma setMessage_twice: "setMessage m (setMessage m ms) = setMessage m ms"
  by (simp add: setMessage_def)

lemma sendTransaction_retry:
  "Option.bind (sendTransaction p s) (sendTransaction p) = sendTransaction p s"
  by (cases "chats s (p_chatId p)") (simp_all add: sendTransaction_def setMessage_twice)

text \<open>
  Claim C9 (refuted by the code).  Alice and Bob each send one message into their fresh
  chat, and both handlers read the chat before either transaction commits.  Both
  messages are stored, unread; but the second transaction writes the counters it
  computed from its own earlier read, so Bob's counter is 0 although one message for
  him is unread.  Running the body of the second transaction again writes the same
  values.  The two sends one after the other give 1 and 1.
\<close>

theorem concurrent_sends_lose_increment:
  "map_option (\<lambda>s. map m_senderId (messages s))
     (racingSends env0 env1 storeC ''alice_bob'' ''alice'' (textBody ''hi bob'') ''bob'' (textBody ''hi alice'')) =
     Some [''alice'', ''bob''] \<and>
   map_option (\<lambda>s. length (unreadFor s ''bob'' ''alice_bob''))
     (racingSends env0 env1 storeC ''alice_bob'' ''alice'' (textBody ''hi bob'') ''bob'' (textBody ''hi alice'')) =
     Some 1 \<and>
   Option.bind
     (racingSends env0 env1 storeC ''alice_bob'' ''alice'' (textBody ''hi bob'') ''bob'' (textBody ''hi alice''))
     (\<lambda>s. countersOf s ''alice_bob'') = Some (1, 0) \<and>
   countersOf
     (snd (sendMessage env1 (snd (sendMessage env0 storeC ''alice'' ''alice_bob'' (textBody ''hi bob'')))
             ''bob'' ''alice_bob'' (textBody ''hi alice''))) ''alice_bob'' = Some (1, 1)"
proof -
  let ?mA = "letter ''m1'' ''alice'' ''hi bob'' False 100"
  let ?mB = "letter ''m4'' ''bob'' ''hi alice'' False 200"
  let ?pA = "\<lparr>p_uid = ''alice'', p_chatId = ''alice_bob'', p_body = textBody ''hi bob'',
               p_chatData = newChat env0 ''alice'' ''bob'', p_otherParticipantId = Some ''bob'',
               p_messageData = ?mA\<rparr>"
  let ?pB = "\<lparr>p_uid = ''bob'', p_chatId = ''alice_bob'', p_body = textBody ''hi alice'',
               p_chatData = newChat env0 ''alice'' ''bob'', p_otherParticipantId = Some ''alice'',
               p_messageData = ?mB\<rparr>"
  have pA: "sendPrepare env0 storeC ''alice'' ''alice_bob'' (textBody ''hi bob'') = Inr ?pA"
    by (simp add: sendPrepare_def storeC_def newChat_def sortPair_def textBody_def typeOf_def falsy_def
          orEmpty_def trim_examples findOther_def env0_def letter_def)
  have pB: "sendPrepare env1 storeC ''bob'' ''alice_bob'' (textBody ''hi alice'') = Inr ?pB"
    by (simp add: sendPrepare_def storeC_def newChat_def sortPair_def textBody_def typeOf_def falsy_def
          orEmpty_def trim_examples findOther_def env1_def letter_def)
  have race: "racingSends env0 env1 storeC ''alice_bob'' ''alice'' (textBody ''hi bob'') ''bob'' (textBody ''hi alice'') =
     Some (storeC\<lparr>messages := [?mA, ?mB],
                  chats := [''alice_bob'' \<mapsto>
                     (newChat env0 ''alice'' ''bob'')
                       \<lparr>c_lastMessage := snapshotOf ?pB, c_lastMessageAt := 200,
                        c_unreadCount := bumpedUnread ?pB\<rparr>]\<rparr>)"
    unfolding racingSends_def pA pB
    by (simp add: sendTransaction_def storeC_def store0_def setMessage_def letter_def)
  have r1: "map_option (\<lambda>s. map m_senderId (messages s))
     (racingSends env0 env1 storeC ''alice_bob'' ''alice'' (textBody ''hi bob'') ''bob'' (textBody ''hi alice'')) =
     Some [''alice'', ''bob'']"
    unfolding race by (simp add: letter_def)
  have r2: "map_option (\<lambda>s. length (unreadFor s ''bob'' ''alice_bob''))
     (racingSends env0 env1 storeC ''alice_bob'' ''alice'' (textBody ''hi bob'') ''bob'' (textBody ''hi alice'')) =
     Some 1"
    unfolding race by (simp add: unreadFor_def letter_def)
  have r3: "Option.bind
     (racingSends env0 env1 storeC ''alice_bob'' ''alice'' (textBody ''hi bob'') ''bob'' (textBody ''hi alice''))
     (\<lambda>s. countersOf s ''alice_bob'') = Some (1, 0)"
    unfolding race by (simp add: countersOf_def bumpedUnread_def propertyKey_def newChat_def orZero_def)
  define s1 where "s1 = snd (sendMessage env0 storeC ''alice'' ''alice_bob'' (textBody ''hi bob''))"
  have c1: "chats s1 ''alice_bob'' =
      Some ((newChat env0 ''alice'' ''bob'')
              \<lparr>c_lastMessage := snapshotOf ?pA, c_lastMessageAt := 100, c_unreadCount := bumpedUnread ?pA\<rparr>)"
    unfolding s1_def sendMessage_def pA
    by (simp add: sendTransaction_def sendFinish_def sendNotify_frame storeC_def letter_def)
  have pB': "sendPrepare env1 s1 ''bob'' ''alice_bob'' (textBody ''hi alice'') =
       Inr (?pB\<lparr>p_chatData := (newChat env0 ''alice'' ''bob'')
              \<lparr>c_lastMessage := snapshotOf ?pA, c_lastMessageAt := 100, c_unreadCount := bumpedUnread ?pA\<rparr>\<rparr>)"
    by (simp add: sendPrepare_def c1 newChat_def sortPair_def textBody_def typeOf_def falsy_def
          orEmpty_def trim_examples findOther_def env1_def letter_def)
  have "countersOf
     (snd (sendMessage env1 s1 ''bob'' ''alice_bob'' (textBody ''hi alice''))) ''alice_bob'' = Some (1, 1)"
    unfolding sendMessage_def pB' countersOf_def
    by (simp add: sendTransaction_def c1 sendFinish_def sendNotify_frame bumpedUnread_def
          propertyKey_def newChat_def orZero_def)
  then have r4: "countersOf
     (snd (sendMessage env1 (snd (sendMessage env0 storeC ''alice'' ''alice_bob'' (textBody ''hi bob'')))
             ''bob'' ''alice_bob'' (textBody ''hi alice''))) ''alice_bob'' = Some (1, 1)"
    unfolding s1_def .
  from r1 r2 r3 r4 show ?thesis by simp
qed

end
